theory Spec2Isabelle
  imports Complex_Main "HOL-Library.Monad_Syntax" "HOL-Library.Multiset"
begin

section \<open>Values of the JavaScript program\<close>

text \<open>
  \<^verbatim>\<open>server.js\<close> works on parsed JSON: the request body that \<^verbatim>\<open>express.json()\<close>
  hands over and the \<^verbatim>\<open>data\<close> of each axios response. A value is one of the JSON
  shapes or \<^verbatim>\<open>undefined\<close>, which is what reading a property that is not there gives.
  Numbers are the rationals (every finite double is one and comparison agrees); strings
  are byte strings (the UTF-8 text), objects are association lists in key order (a
  parsed object has each key once). An object that the handler builds may hold
  \<^verbatim>\<open>undefined\<close> members; \<^verbatim>\<open>res.json\<close> leaves them out when it writes the body.
\<close>

datatype json =
    JUndefined
  | JNull
  | JBool bool
  | JNum rat
  | JStr string
  | JArr "json list"
  | JObj "(string \<times> json) list"

text \<open>ToBoolean: what \<^verbatim>\<open>!x\<close>, \<^verbatim>\<open>&&\<close>, \<^verbatim>\<open>||\<close> and \<^verbatim>\<open>?:\<close> look at.\<close>

fun truthy :: "json \<Rightarrow> bool" where
  "truthy JUndefined = False"
| "truthy JNull = False"
| "truthy (JBool b) = b"
| "truthy (JNum n) = (n \<noteq> 0)"
| "truthy (JStr s) = (s \<noteq> [])"
| "truthy (JArr xs) = True"
| "truthy (JObj kvs) = True"

definition nullish :: "json \<Rightarrow> bool" where
  "nullish v = (v = JUndefined \<or> v = JNull)"

text \<open>
  Reading a data property \<^verbatim>\<open>v.k\<close>. On \<^verbatim>\<open>undefined\<close> and \<^verbatim>\<open>null\<close> it throws a
  TypeError (\<open>None\<close>). Arrays and strings have \<^verbatim>\<open>length\<close> (the source only compares a
  string's length with 0, where bytes and UTF-16 units agree); none of the other names
  the source reads is inherited from a prototype, so everything else is an own key or
  \<^verbatim>\<open>undefined\<close>.
\<close>

fun prop_of :: "json \<Rightarrow> string \<Rightarrow> json option" where
  "prop_of JUndefined k = None"
| "prop_of JNull k = None"
| "prop_of (JObj kvs) k = Some (case map_of kvs k of Some v \<Rightarrow> v | None \<Rightarrow> JUndefined)"
| "prop_of (JArr xs) k = Some (if k = ''length'' then JNum (of_nat (length xs)) else JUndefined)"
| "prop_of (JStr s) k = Some (if k = ''length'' then JNum (of_nat (length s)) else JUndefined)"
| "prop_of (JBool b) k = Some JUndefined"
| "prop_of (JNum n) k = Some JUndefined"

text \<open>
  The same read where the source has already made sure the receiver is truthy (the right
  operand of \<^verbatim>\<open>&&\<close>, an element that passed the filter): it cannot throw there.
\<close>

definition get :: "json \<Rightarrow> string \<Rightarrow> json" where
  "get v k = (case prop_of v k of Some x \<Rightarrow> x | None \<Rightarrow> JUndefined)"

definition andalso :: "json \<Rightarrow> json \<Rightarrow> json" where
  "andalso a b = (if truthy a then b else a)"

definition orelse :: "json \<Rightarrow> json \<Rightarrow> json" where
  "orelse a b = (if truthy a then a else b)"

text \<open>
  The receiver of \<^verbatim>\<open>.filter\<close>, \<^verbatim>\<open>.sort\<close>, \<^verbatim>\<open>.map\<close> and \<^verbatim>\<open>.join\<close>: only an array has
  these methods; on anything else the call is a TypeError.
\<close>

fun as_array :: "json \<Rightarrow> json list option" where
  "as_array (JArr xs) = Some xs"
| "as_array v = None"

fun filter_throwing :: "('a \<Rightarrow> bool option) \<Rightarrow> 'a list \<Rightarrow> 'a list option" where
  "filter_throwing p [] = Some []"
| "filter_throwing p (x # xs) =
     do { b \<leftarrow> p x; ys \<leftarrow> filter_throwing p xs; Some (if b then x # ys else ys) }"

fun map_throwing :: "('a \<Rightarrow> 'b option) \<Rightarrow> 'a list \<Rightarrow> 'b list option" where
  "map_throwing f [] = Some []"
| "map_throwing f (x # xs) = do { y \<leftarrow> f x; ys \<leftarrow> map_throwing f xs; Some (y # ys) }"

fun join :: "string \<Rightarrow> string list \<Rightarrow> string" where
  "join sep [] = []"
| "join sep [x] = x"
| "join sep (x # y # ys) = x @ sep @ join sep (y # ys)"

section \<open>What the JavaScript engine provides\<close>

text \<open>
  The built-in algorithms the source calls are parameters of the model: the theorems
  hold for every choice of them, those about the order of the features for every sort
  that conforms to ECMAScript.
  \<^item> \<open>number_text\<close>: the text of a number, as ToString writes it;
  \<^item> \<open>string_number\<close>: the number a string stands for (StringToNumber), \<open>None\<close> for
    NaN;
  \<^item> \<open>date_parse\<close>: the time value \<^verbatim>\<open>new Date(s)\<close> reads from a string, in
    milliseconds, \<open>None\<close> for an Invalid Date;
  \<^item> \<open>array_sort\<close>: \<^verbatim>\<open>Array.prototype.sort\<close> with a comparator. The comparator throws
    (\<open>None\<close>) or gives NaN (\<open>Some None\<close>) or a number; the sort throws (\<open>None\<close>) when
    a call of the comparator does;
  \<^item> \<open>to_fixed1\<close>: \<^verbatim>\<open>Number.prototype.toFixed(1)\<close>;
  \<^item> \<open>stringify2\<close>: \<^verbatim>\<open>JSON.stringify(v, null, 2)\<close>;
  \<^item> \<open>uri_component\<close>: \<^verbatim>\<open>encodeURIComponent\<close> of a string, \<open>None\<close> when it throws a
    URIError;
  \<^item> \<open>string_at0\<close>: \<^verbatim>\<open>s[0]\<close> of a non-empty string.
  Console output is not part of the model; the conversions that the log lines make
  are, since they can throw.
\<close>

record builtins =
  number_text :: "rat \<Rightarrow> string"
  string_number :: "string \<Rightarrow> rat option"
  date_parse :: "string \<Rightarrow> int option"
  array_sort :: "(json \<Rightarrow> json \<Rightarrow> int option option) \<Rightarrow> json list \<Rightarrow> json list option"
  to_fixed1 :: "rat \<Rightarrow> string"
  stringify2 :: "json \<Rightarrow> string"
  uri_component :: "string \<Rightarrow> string option"
  string_at0 :: "string \<Rightarrow> json"

subsection \<open>Conversions\<close>

text \<open>
  ToString, as a template literal, \<^verbatim>\<open>join\<close> and \<^verbatim>\<open>encodeURIComponent\<close> apply it;
  \<open>None\<close> is a TypeError. A parsed object has no function among its members: when it
  has a member \<^verbatim>\<open>toString\<close> of its own, neither that nor the inherited \<^verbatim>\<open>valueOf\<close>
  gives a primitive and the conversion throws; otherwise the inherited \<^verbatim>\<open>toString\<close>
  answers. An array is joined with commas, \<^verbatim>\<open>undefined\<close> and \<^verbatim>\<open>null\<close> elements as
  the empty text.
\<close>

fun to_string :: "builtins \<Rightarrow> json \<Rightarrow> string option"
  and element_texts :: "builtins \<Rightarrow> json list \<Rightarrow> string list option" where
  "to_string B JUndefined = Some ''undefined''"
| "to_string B JNull = Some ''null''"
| "to_string B (JBool b) = Some (if b then ''true'' else ''false'')"
| "to_string B (JNum n) = Some (number_text B n)"
| "to_string B (JStr s) = Some s"
| "to_string B (JArr xs) = map_option (join '','') (element_texts B xs)"
| "to_string B (JObj kvs) =
     (if map_of kvs ''toString'' \<noteq> None then None else Some ''[object Object]'')"
| "element_texts B [] = Some []"
| "element_texts B (x # xs) =
     do {
       s \<leftarrow> (if x = JUndefined \<or> x = JNull then Some [] else to_string B x);
       ss \<leftarrow> element_texts B xs;
       Some (s # ss)
     }"

text \<open>
  ToNumber: \<open>None\<close> is a TypeError, \<open>Some None\<close> is NaN. An array or an object is
  converted to a primitive first, which for parsed data is its text or a TypeError.
\<close>

fun to_number :: "builtins \<Rightarrow> json \<Rightarrow> rat option option" where
  "to_number B (JNum n) = Some (Some n)"
| "to_number B JUndefined = Some None"
| "to_number B JNull = Some (Some 0)"
| "to_number B (JBool b) = Some (Some (if b then 1 else 0))"
| "to_number B (JStr s) = Some (string_number B s)"
| "to_number B v = map_option (string_number B) (to_string B v)"

text \<open>The comparison \<^verbatim>\<open>v > c\<close> with a number \<open>c\<close>: false on NaN, \<open>None\<close> when it throws.\<close>

definition js_gt :: "builtins \<Rightarrow> json \<Rightarrow> rat \<Rightarrow> bool option" where
  "js_gt B v c =
     map_option (\<lambda>n. case n of Some x \<Rightarrow> x > c | None \<Rightarrow> False) (to_number B v)"

text \<open>
  The time value of \<^verbatim>\<open>new Date(v)\<close>: \<open>None\<close> is a TypeError, \<open>Some None\<close> an Invalid
  Date. A string is parsed; anything else is a number of milliseconds, cut to an
  integer and valid up to 8.64e15 either way.
\<close>

definition time_clip :: "rat \<Rightarrow> int option" where
  "time_clip n =
     (if \<bar>n\<bar> \<le> 8640000000000000 then Some (if 0 \<le> n then \<lfloor>n\<rfloor> else \<lceil>n\<rceil>) else None)"

fun date_of :: "builtins \<Rightarrow> json \<Rightarrow> int option option" where
  "date_of B (JStr s) = Some (date_parse B s)"
| "date_of B (JNum n) = Some (time_clip n)"
| "date_of B JUndefined = Some None"
| "date_of B JNull = Some (Some 0)"
| "date_of B (JBool b) = Some (Some (if b then 1 else 0))"
| "date_of B v = map_option (date_parse B) (to_string B v)"

text \<open>\<^verbatim>\<open>encodeURIComponent(v)\<close>: the text of \<open>v\<close>, then the encoding.\<close>

definition encode_uri :: "builtins \<Rightarrow> json \<Rightarrow> string option" where
  "encode_uri B v = to_string B v \<bind> uri_component B"

text \<open>\<^verbatim>\<open>v[0]\<close>: a TypeError on \<^verbatim>\<open>undefined\<close> and \<^verbatim>\<open>null\<close>.\<close>

fun index0 :: "builtins \<Rightarrow> json \<Rightarrow> json option" where
  "index0 B JUndefined = None"
| "index0 B JNull = None"
| "index0 B (JArr []) = Some JUndefined"
| "index0 B (JArr (x # xs)) = Some x"
| "index0 B (JStr s) = Some (if s = [] then JUndefined else string_at0 B s)"
| "index0 B (JObj kvs) = Some (case map_of kvs ''0'' of Some v \<Rightarrow> v | None \<Rightarrow> JUndefined)"
| "index0 B (JBool b) = Some JUndefined"
| "index0 B (JNum n) = Some JUndefined"

definition first_of :: "builtins \<Rightarrow> json \<Rightarrow> json" where
  "first_of B v = (case index0 B v of Some x \<Rightarrow> x | None \<Rightarrow> JUndefined)"

subsection \<open>Sorting\<close>

text \<open>
  ECMAScript fixes the result of \<^verbatim>\<open>sort\<close> only for a consistent comparator: then the
  result is the stable sort. The reference below is the stable insertion sort; it reads
  a NaN from the comparator as 0, as SortCompare does, and stops when the comparator
  throws. An engine conforms when its sort, if it returns, permutes the array; returns
  when the comparator throws on no pair of elements; and agrees with the reference on
  every array whose elements the comparator ranks consistently.
\<close>

fun insert_sorted ::
  "(json \<Rightarrow> json \<Rightarrow> int option option) \<Rightarrow> json \<Rightarrow> json list \<Rightarrow> json list option" where
  "insert_sorted cmp x [] = Some [x]"
| "insert_sorted cmp x (y # ys) =
     do {
       v \<leftarrow> cmp x y;
       if (case v of Some d \<Rightarrow> d > 0 | None \<Rightarrow> False)
       then do { zs \<leftarrow> insert_sorted cmp x ys; Some (y # zs) }
       else Some (x # y # ys)
     }"

fun stable_sort :: "(json \<Rightarrow> json \<Rightarrow> int option option) \<Rightarrow> json list \<Rightarrow> json list option" where
  "stable_sort cmp [] = Some []"
| "stable_sort cmp (x # xs) = do { ys \<leftarrow> stable_sort cmp xs; insert_sorted cmp x ys }"

definition consistent :: "(json \<Rightarrow> json \<Rightarrow> int option option) \<Rightarrow> json list \<Rightarrow> bool" where
  "consistent cmp xs =
     (\<exists>rank :: json \<Rightarrow> int. \<forall>a \<in> set xs. \<forall>b \<in> set xs.
        \<exists>v. cmp a b = Some (Some v) \<and> sgn v = sgn (rank a - rank b))"

definition conforming_sort :: "builtins \<Rightarrow> bool" where
  "conforming_sort B =
     (\<forall>cmp xs.
        (\<forall>ys. array_sort B cmp xs = Some ys \<longrightarrow> mset ys = mset xs)
        \<and> ((\<forall>a \<in> set xs. \<forall>b \<in> set xs. cmp a b \<noteq> None) \<longrightarrow> array_sort B cmp xs \<noteq> None)
        \<and> (consistent cmp xs \<longrightarrow> array_sort B cmp xs = stable_sort cmp xs))"

subsection \<open>Trimming\<close>

text \<open>
  \<^verbatim>\<open>String.prototype.trim\<close> removes WhiteSpace and LineTerminator code points from both
  ends. On the UTF-8 text these are the byte sequences of U+0009 to U+000D, U+0020,
  U+00A0, U+1680, U+2000 to U+200A, U+2028, U+2029, U+202F, U+205F, U+3000 and U+FEFF.
\<close>

definition white_space :: "string list" where
  "white_space =
     [[CHR 0x09], [CHR 0x0A], [CHR 0x0B], [CHR 0x0C], [CHR 0x0D], [CHR 0x20],
      [CHR 0xC2, CHR 0xA0], [CHR 0xE1, CHR 0x9A, CHR 0x80]] @
     map (\<lambda>c. [CHR 0xE2, CHR 0x80, c])
       [CHR 0x80, CHR 0x81, CHR 0x82, CHR 0x83, CHR 0x84, CHR 0x85, CHR 0x86, CHR 0x87,
        CHR 0x88, CHR 0x89, CHR 0x8A, CHR 0xA8, CHR 0xA9, CHR 0xAF] @
     [[CHR 0xE2, CHR 0x81, CHR 0x9F], [CHR 0xE3, CHR 0x80, CHR 0x80],
      [CHR 0xEF, CHR 0xBB, CHR 0xBF]]"

definition leading_space :: "string \<Rightarrow> string option" where
  "leading_space s = find (\<lambda>w. w \<noteq> [] \<and> take (length w) s = w) white_space"

definition trailing_space :: "string \<Rightarrow> string option" where
  "trailing_space s =
     find (\<lambda>w. w \<noteq> [] \<and> length w \<le> length s \<and> drop (length s - length w) s = w) white_space"

function trim_start :: "string \<Rightarrow> string" where
  "trim_start s =
     (case leading_space s of None \<Rightarrow> s | Some w \<Rightarrow> trim_start (drop (length w) s))"
  by pat_completeness auto
termination
proof (relation "measure length")
  fix s w
  assume "leading_space s = Some w"
  then have "w \<noteq> [] \<and> take (length w) s = w"
    unfolding leading_space_def by (auto simp: find_Some_iff)
  then have "0 < length w \<and> s \<noteq> []"
    by auto
  then show "(drop (length w) s, s) \<in> measure length"
    by simp
qed simp

function trim_end :: "string \<Rightarrow> string" where
  "trim_end s =
     (case trailing_space s of None \<Rightarrow> s
      | Some w \<Rightarrow> trim_end (take (length s - length w) s))"
  by pat_completeness auto
termination
proof (relation "measure length")
  fix s w
  assume "trailing_space s = Some w"
  then have "w \<noteq> [] \<and> length w \<le> length s"
    unfolding trailing_space_def by (auto simp: find_Some_iff)
  then have "0 < length w \<and> 0 < length s"
    by auto
  then show "(take (length s - length w) s, s) \<in> measure length"
    by simp
qed simp

declare trim_start.simps [simp del] trim_end.simps [simp del]

definition js_trim :: "string \<Rightarrow> string" where
  "js_trim s = trim_end (trim_start s)"

section \<open>The responses\<close>

datatype reply =
    Reply nat json
  | Uncaught

definition error_body :: "string \<Rightarrow> json" where
  "error_body msg = JObj [(''error'', JStr msg)]"

section \<open>GET /health\<close>

text \<open>
  \<^verbatim>\<open>res.json({ status: 'ok', timestamp: Date.now() })\<close>: the handler reads the clock once;
  \<open>now\<close> is that reading, in milliseconds since the epoch.
\<close>

definition health :: "int \<Rightarrow> reply" where
  "health now = Reply 200 (JObj [(''status'', JStr ''ok''), (''timestamp'', JNum (of_int now))])"

fun timestamp_of :: "reply \<Rightarrow> json" where
  "timestamp_of (Reply c b) = get b ''timestamp''"
| "timestamp_of Uncaught = JUndefined"

fun num_less :: "json \<Rightarrow> json \<Rightarrow> bool" where
  "num_less (JNum a) (JNum b) = (a < b)"
| "num_less a b = False"

section \<open>POST /api/get-sar-image\<close>

subsection \<open>Configuration and the services called\<close>

text \<open>
  The three keys are read from the environment once; a variable that is not set is
  \<open>None\<close>. \<^verbatim>\<open>!KEY\<close> holds for a missing and for an empty one.
\<close>

record env =
  imagga_api_key :: "string option"
  imagga_api_secret :: "string option"
  open_router_api :: "string option"

definition unset :: "string option \<Rightarrow> bool" where
  "unset k = (k = None \<or> k = Some [])"

text \<open>
  An axios call either rejects (a transport error, a timeout, a status outside 2xx) or
  resolves with the parsed \<^verbatim>\<open>data\<close> of the response. The services are functions from
  what is sent to what comes back; every call made is recorded in order.
\<close>

datatype outcome = Failed | Data json

datatype auth = Basic "string option" "string option" | Bearer "string option"

record upstream =
  catalog :: "string \<Rightarrow> outcome"
  colors :: "auth \<Rightarrow> string \<Rightarrow> outcome"
  tags :: "auth \<Rightarrow> string \<Rightarrow> outcome"
  llm :: "auth \<Rightarrow> string \<Rightarrow> outcome"

datatype call =
    CatalogCall string
  | ColorsCall auth string
  | TagsCall auth string
  | LlmCall auth string

subsection \<open>Selecting the image (lines 40 to 60)\<close>

text \<open>
  The catalog URL of line 40. The two coordinates are written into it as text, which
  can throw; the line is outside the \<^verbatim>\<open>try\<close>.
\<close>

definition asf_url :: "builtins \<Rightarrow> json \<Rightarrow> json \<Rightarrow> string option" where
  "asf_url B latitude longitude =
     do {
       lon \<leftarrow> to_string B longitude;
       lat \<leftarrow> to_string B latitude;
       Some (''https://api.daac.asf.alaska.edu/services/search/param?intersectsWith=POINT(''
             @ lon @ ''+'' @ lat
             @ '')&dataset=SENTINEL-1&maxResults=250&output=geojson'')
     }"

text \<open>
  The filter callback
  \<^verbatim>\<open>f => f.properties && f.properties.browse && f.properties.browse.length > 0\<close>,
  \<open>None\<close> when it throws.
\<close>

definition eligible :: "builtins \<Rightarrow> json \<Rightarrow> bool option" where
  "eligible B f =
     do {
       properties \<leftarrow> prop_of f ''properties'';
       if \<not> truthy properties then Some False
       else do {
         browse \<leftarrow> prop_of properties ''browse'';
         if \<not> truthy browse then Some False
         else do {
           n \<leftarrow> prop_of browse ''length'';
           js_gt B n 0
         }
       }
     }"

text \<open>
  The comparator
  \<^verbatim>\<open>(a, b) => new Date(b.properties.startTime) - new Date(a.properties.startTime)\<close>:
  the date of \<open>b\<close> is made first; the difference of two dates is NaN when either is
  invalid.
\<close>

definition by_start_desc :: "builtins \<Rightarrow> json \<Rightarrow> json \<Rightarrow> int option option" where
  "by_start_desc B a b =
     do {
       pb \<leftarrow> prop_of b ''properties'';
       sb \<leftarrow> prop_of pb ''startTime'';
       tb \<leftarrow> date_of B sb;
       pa \<leftarrow> prop_of a ''properties'';
       sa \<leftarrow> prop_of pa ''startTime'';
       ta \<leftarrow> date_of B sa;
       Some (case (tb, ta) of (Some x, Some y) \<Rightarrow> Some (x - y) | _ \<Rightarrow> None)
     }"

datatype selection = Crashed | NoData | NoPreviews | Selected json json json

text \<open>
  From the catalog's \<^verbatim>\<open>data\<close> to \<^verbatim>\<open>latestFeature\<close>, its \<^verbatim>\<open>properties\<close> and
  \<^verbatim>\<open>imageUrl\<close>; \<open>Crashed\<close> is an exception on the way, which the outer
  \<^verbatim>\<open>catch\<close> turns into the 500 reply.
\<close>

definition select_image :: "builtins \<Rightarrow> json \<Rightarrow> selection" where
  "select_image B data =
     (case prop_of data ''features'' of
        None \<Rightarrow> Crashed
      | Some features \<Rightarrow>
          if \<not> truthy features \<or> prop_of features ''length'' = Some (JNum 0) then NoData
          else
            (case as_array features \<bind> filter_throwing (eligible B)
                    \<bind> array_sort B (by_start_desc B) of
               None \<Rightarrow> Crashed
             | Some [] \<Rightarrow> NoPreviews
             | Some (latestFeature # rest) \<Rightarrow>
                 (case do {
                         properties \<leftarrow> prop_of latestFeature ''properties'';
                         browse \<leftarrow> prop_of properties ''browse'';
                         imageUrl \<leftarrow> index0 B browse;
                         Some (Selected latestFeature properties imageUrl)
                       } of
                    None \<Rightarrow> Crashed
                  | Some sel \<Rightarrow> sel)))"

subsection \<open>Colours (lines 65 to 79)\<close>

definition nested_colors :: "json \<Rightarrow> json" where
  "nested_colors d =
     andalso (andalso (andalso d (get d ''result''))
                (get (get d ''result'') ''colors''))
       (get (get (get d ''result'') ''colors'') ''image_colors'')"

text \<open>
  \<^verbatim>\<open>imageColors.slice(0,5)\<close> in the log line is inside the \<^verbatim>\<open>try\<close>: a value that is
  neither an array nor a string has no \<^verbatim>\<open>slice\<close>, and the \<^verbatim>\<open>catch\<close> resets the list.
\<close>

fun sliceable :: "json \<Rightarrow> bool" where
  "sliceable (JArr xs) = True"
| "sliceable (JStr s) = True"
| "sliceable v = False"

definition received_colors :: "outcome \<Rightarrow> json" where
  "received_colors r =
     (case r of
        Failed \<Rightarrow> JArr []
      | Data d \<Rightarrow>
          (let imageColors = orelse (nested_colors d) (JArr [])
           in if sliceable imageColors then imageColors else JArr []))"

definition colors_stage :: "builtins \<Rightarrow> env \<Rightarrow> upstream \<Rightarrow> json \<Rightarrow> json \<times> call list" where
  "colors_stage B E up imageUrl =
     (case encode_uri B imageUrl of
        None \<Rightarrow> (JArr [], [])
      | Some u \<Rightarrow>
          (let url = ''https://api.imagga.com/v2/colors?image_url='' @ u;
               a = Basic (imagga_api_key E) (imagga_api_secret E)
           in (received_colors (colors up a url), [ColorsCall a url])))"

subsection \<open>Tags (lines 82 to 98)\<close>

definition confident :: "builtins \<Rightarrow> json \<Rightarrow> bool option" where
  "confident B t = do { c \<leftarrow> prop_of t ''confidence''; js_gt B c 15 }"

definition english_label :: "json \<Rightarrow> json option" where
  "english_label t = do { g \<leftarrow> prop_of t ''tag''; prop_of g ''en'' }"

definition kept_tags :: "builtins \<Rightarrow> json \<Rightarrow> json list option" where
  "kept_tags B d =
     (if truthy (andalso (andalso d (get d ''result'')) (get (get d ''result'') ''tags''))
      then do {
        ts \<leftarrow> as_array (get (get d ''result'') ''tags'');
        kept \<leftarrow> filter_throwing (confident B) ts;
        map_throwing english_label (take 5 kept)
      }
      else Some [])"

definition received_tags :: "builtins \<Rightarrow> outcome \<Rightarrow> json list" where
  "received_tags B r =
     (case r of
        Failed \<Rightarrow> []
      | Data d \<Rightarrow> (case kept_tags B d of None \<Rightarrow> [] | Some labels \<Rightarrow> labels))"

definition tags_stage :: "builtins \<Rightarrow> env \<Rightarrow> upstream \<Rightarrow> json \<Rightarrow> json list \<times> call list" where
  "tags_stage B E up imageUrl =
     (case encode_uri B imageUrl of
        None \<Rightarrow> ([], [])
      | Some u \<Rightarrow>
          (let url = ''https://api.imagga.com/v2/tags?image_url='' @ u;
               a = Basic (imagga_api_key E) (imagga_api_secret E)
           in (received_tags B (tags up a url), [TagsCall a url])))"

subsection \<open>The prompt (lines 100 to 143)\<close>

definition metadata_for_ai :: "json \<Rightarrow> json \<Rightarrow> json \<Rightarrow> json" where
  "metadata_for_ai properties latitude longitude =
     JObj [(''sceneName'', get properties ''sceneName''),
           (''platform'', get properties ''platform''),
           (''captureDate'', get properties ''startTime''),
           (''flightDirection'', get properties ''flightDirection''),
           (''polarization'', get properties ''polarization''),
           (''beamMode'', get properties ''beamModeType''),
           (''orbit'', get properties ''orbit''),
           (''coordinates'', JObj [(''latitude'', latitude), (''longitude'', longitude)])]"

text \<open>\<^verbatim>\<open>(c.percent || 0).toFixed(1)\<close>: only a number has \<^verbatim>\<open>toFixed\<close>.\<close>

fun to_fixed :: "builtins \<Rightarrow> json \<Rightarrow> string option" where
  "to_fixed B (JNum n) = Some (to_fixed1 B n)"
| "to_fixed B v = None"

definition color_line :: "builtins \<Rightarrow> json \<Rightarrow> string option" where
  "color_line B c =
     do {
       color_name \<leftarrow> prop_of c ''color_name'';
       closest_palette_color \<leftarrow> prop_of c ''closest_palette_color'';
       html_code \<leftarrow> prop_of c ''html_code'';
       name \<leftarrow> to_string B
         (orelse (orelse (orelse color_name closest_palette_color) html_code)
            (JStr ''unknown''));
       percent \<leftarrow> prop_of c ''percent'';
       shown \<leftarrow> to_fixed B (orelse percent (JNum 0));
       Some (name @ '': '' @ shown @ ''%'')
     }"

definition color_text :: "builtins \<Rightarrow> json \<Rightarrow> string option" where
  "color_text B imageColors =
     do {
       n \<leftarrow> prop_of imageColors ''length'';
       if truthy n
       then do {
         cs \<leftarrow> as_array imageColors;
         parts \<leftarrow> map_throwing (color_line B) cs;
         Some (join '', '' parts)
       }
       else Some ''No color data available''
     }"

text \<open>
  \<^verbatim>\<open>imageTags.length ? imageTags.join(', ') : 'None'\<close>. \<^verbatim>\<open>join\<close> writes
  \<^verbatim>\<open>undefined\<close> and \<^verbatim>\<open>null\<close> as the empty text and converts every other element,
  which can throw.
\<close>

definition tag_text :: "builtins \<Rightarrow> json list \<Rightarrow> string option" where
  "tag_text B imageTags =
     (if imageTags \<noteq> [] then map_option (join '', '') (element_texts B imageTags)
      else Some ''None'')"

text \<open>U+1F6F0 U+FE0F, the satellite of the first line, in UTF-8.\<close>

definition satellite :: string where
  "satellite = [CHR 0xF0, CHR 0x9F, CHR 0x9B, CHR 0xB0, CHR 0xEF, CHR 0xB8, CHR 0x8F]"

text \<open>
  The template literal: a line break, then the lines 117 to 142 of the source separated
  by line breaks (the last one is the metadata text), then the line break before the
  closing backquote.
\<close>

definition template_lines :: "string \<Rightarrow> string \<Rightarrow> string list" where
  "template_lines colorText tagText =
     [''You are a NASA SAR (Synthetic Aperture Radar) interpretation specialist '' @ satellite @ ''.'',
      ''A vision API has returned detected colors and approximate percentages for a Sentinel-1 preview image.'',
      '''',
      ''Detected color percentages:'',
      colorText,
      '''',
      ''Also detected visual tags: '' @ tagText @ ''.'',
      '''',
      ''SAR Color Interpretation Chart:'',
      ''- Bright White / Light Gray => strong backscatter (urban structures, metal, ships)'',
      ''- Medium Gray => rocky terrain or dry soil'',
      ''- Black / Dark Blue => calm water or radar shadow'',
      ''- Green => vegetation or forest'',
      ''- Yellow / Orange => mixed terrain or transitional vegetation'',
      ''- Red / Magenta => man-made structures or urban materials'',
      ''- Cyan / Blue-Green => wetlands or moist areas'',
      '''',
      ''Using these color percentages and the tags, do the following:'',
      ''1) For each detected color, give a short interpretation (one line) about what that color likely represents in SAR terms.'',
      ''2) Provide a 4-6 sentence summary describing the most likely landscape in plain, simple language.'',
      ''3) Mention the capture date/time, flightDirection, and coordinates (from metadata) explicitly.'',
      ''4) Note any uncertainties or edge-cases (for example, if color mapping is ambiguous).'',
      ''5) Use 0-2 relevant emojis, keep output concise.'',
      '''',
      ''Metadata:'']"

definition template :: "string \<Rightarrow> string \<Rightarrow> string \<Rightarrow> string" where
  "template colorText tagText metadataText =
     concat (map (\<lambda>l. CHR 0x0A # l) (template_lines colorText tagText @ [metadataText]))
     @ [CHR 0x0A]"

definition build_prompt :: "builtins \<Rightarrow> json \<Rightarrow> json list \<Rightarrow> json \<Rightarrow> string option" where
  "build_prompt B imageColors imageTags metadataForAI =
     do {
       colorText \<leftarrow> color_text B imageColors;
       tagText \<leftarrow> tag_text B imageTags;
       Some (js_trim (template colorText tagText (stringify2 B metadataForAI)))
     }"

subsection \<open>The interpretation (lines 146 to 168)\<close>

definition first_choice_text :: "builtins \<Rightarrow> json \<Rightarrow> json" where
  "first_choice_text B d =
     (let choice = first_of B (get d ''choices'');
          message = get choice ''message'';
          content = (if nullish message then JUndefined else get message ''content'')
      in orelse content (get choice ''text''))"

definition explanation_of :: "builtins \<Rightarrow> outcome \<Rightarrow> json" where
  "explanation_of B r =
     (case r of
        Failed \<Rightarrow> JStr ''AI interpretation unavailable due to service error.''
      | Data d \<Rightarrow>
          orelse
            (andalso (andalso (andalso d (get d ''choices'')) (first_of B (get d ''choices'')))
               (first_choice_text B d))
            (JStr []))"

definition llm_stage :: "builtins \<Rightarrow> env \<Rightarrow> upstream \<Rightarrow> string \<Rightarrow> json \<times> call list" where
  "llm_stage B E up prompt =
     (let a = Bearer (open_router_api E)
      in (explanation_of B (llm up a prompt), [LlmCall a prompt]))"

subsection \<open>The handler\<close>

definition failed_body :: json where
  "failed_body = error_body ''Failed to process SAR data.''"

text \<open>
  Lines 62 to 178: everything after the image is chosen. The log line 62 writes the
  image URL as text; when that throws, the outer \<^verbatim>\<open>catch\<close> answers.
\<close>

definition respond ::
  "builtins \<Rightarrow> env \<Rightarrow> upstream \<Rightarrow> json \<Rightarrow> json \<Rightarrow> json \<Rightarrow> json \<Rightarrow> reply \<times> call list" where
  "respond B E up latitude longitude properties imageUrl =
     (case to_string B imageUrl of
        None \<Rightarrow> (Reply 500 failed_body, [])
      | Some logged \<Rightarrow>
          (let (imageColors, c1) = colors_stage B E up imageUrl;
               (imageTags, c2) = tags_stage B E up imageUrl;
               metadataForAI = metadata_for_ai properties latitude longitude
           in case build_prompt B imageColors imageTags metadataForAI of
                None \<Rightarrow> (Reply 500 failed_body, c1 @ c2)
              | Some prompt \<Rightarrow>
                  (let (explanation, c3) = llm_stage B E up prompt
                   in (Reply 200
                         (JObj [(''imageUrl'', imageUrl),
                                (''explanation'', explanation),
                                (''sceneName'', get properties ''sceneName''),
                                (''imageTags'', JArr imageTags),
                                (''imageColors'', imageColors),
                                (''metadata'', metadataForAI)]),
                       c1 @ c2 @ c3))))"

text \<open>
  The whole handler: the reply and the calls made. Destructuring \<^verbatim>\<open>req.body\<close>, the log
  line 26 that writes both coordinates as text, and the URL of line 40 are outside the
  \<^verbatim>\<open>try\<close>: when one of them throws, nothing is sent (\<open>Uncaught\<close>).
\<close>

definition handler :: "builtins \<Rightarrow> env \<Rightarrow> upstream \<Rightarrow> json \<Rightarrow> reply \<times> call list" where
  "handler B E up body =
     (case do {
             latitude \<leftarrow> prop_of body ''latitude'';
             longitude \<leftarrow> prop_of body ''longitude'';
             lat \<leftarrow> to_string B latitude;
             lon \<leftarrow> to_string B longitude;
             Some (latitude, longitude)
           } of
        None \<Rightarrow> (Uncaught, [])
      | Some (latitude, longitude) \<Rightarrow>
          if latitude = JUndefined \<or> longitude = JUndefined
          then (Reply 400 (error_body ''Latitude and Longitude are required.''), [])
          else if unset (imagga_api_key E) \<or> unset (imagga_api_secret E)
          then (Reply 500
                  (error_body ''Server configuration error: Imagga credentials missing.''), [])
          else
            (case asf_url B latitude longitude of
               None \<Rightarrow> (Uncaught, [])
             | Some asfApiUrl \<Rightarrow>
                 (case catalog up asfApiUrl of
                    Failed \<Rightarrow> (Reply 500 failed_body, [CatalogCall asfApiUrl])
                  | Data d \<Rightarrow>
                      (case select_image B d of
                         Crashed \<Rightarrow> (Reply 500 failed_body, [CatalogCall asfApiUrl])
                       | NoData \<Rightarrow>
                           (Reply 404 (error_body ''No SAR data found for this location.''),
                            [CatalogCall asfApiUrl])
                       | NoPreviews \<Rightarrow>
                           (Reply 404
                              (error_body
                                 ''SAR data found, but no preview images are available.''),
                            [CatalogCall asfApiUrl])
                       | Selected latestFeature properties imageUrl \<Rightarrow>
                           (let (r, cs) =
                                  respond B E up latitude longitude properties imageUrl
                            in (r, CatalogCall asfApiUrl # cs))))))"


section \<open>The data model of the specification\<close>

text \<open>
  A feature of the catalog is an object; its preview list \<^verbatim>\<open>properties.browse\<close> is
  absent, \<^verbatim>\<open>null\<close> or an array. It has a preview when that array is not empty. Its start
  time is the date made from \<^verbatim>\<open>properties.startTime\<close>.
\<close>

definition browse_of :: "json \<Rightarrow> json" where
  "browse_of f = get (get f ''properties'') ''browse''"

definition well_formed_feature :: "json \<Rightarrow> bool" where
  "well_formed_feature f =
     (\<not> nullish f \<and>
      (case browse_of f of
         JUndefined \<Rightarrow> True | JNull \<Rightarrow> True | JArr bs \<Rightarrow> True | _ \<Rightarrow> False))"

definition has_preview :: "json \<Rightarrow> bool" where
  "has_preview f = (case browse_of f of JArr (b # bs) \<Rightarrow> True | _ \<Rightarrow> False)"

definition first_preview :: "json \<Rightarrow> json" where
  "first_preview f = (case browse_of f of JArr (b # bs) \<Rightarrow> b | _ \<Rightarrow> JUndefined)"

definition start_time :: "builtins \<Rightarrow> json \<Rightarrow> int option option" where
  "start_time B f = date_of B (get (get f ''properties'') ''startTime'')"

text \<open>The two calls to the vision service for an image URL, as lines 67 and 84 build them.\<close>

definition vision_calls :: "builtins \<Rightarrow> env \<Rightarrow> json \<Rightarrow> call list" where
  "vision_calls B E imageUrl =
     (case encode_uri B imageUrl of
        None \<Rightarrow> []
      | Some u \<Rightarrow>
          [ColorsCall (Basic (imagga_api_key E) (imagga_api_secret E))
             (''https://api.imagga.com/v2/colors?image_url='' @ u),
           TagsCall (Basic (imagga_api_key E) (imagga_api_secret E))
             (''https://api.imagga.com/v2/tags?image_url='' @ u)])"

text \<open>The prompts among the calls of a request.\<close>

fun prompts_sent :: "call list \<Rightarrow> string list" where
  "prompts_sent [] = []"
| "prompts_sent (LlmCall a q # cs) = q # prompts_sent cs"
| "prompts_sent (c # cs) = prompts_sent cs"

text \<open>
  The catalog answers a request: the request carries both coordinates, the vision
  credentials are set, and the catalog call, to the URL \<open>url\<close>, resolves with the data
  \<open>d\<close>.
\<close>

definition catalog_answers ::
  "builtins \<Rightarrow> env \<Rightarrow> upstream \<Rightarrow> json \<Rightarrow> json \<Rightarrow> json \<Rightarrow> string \<Rightarrow> json \<Rightarrow> bool" where
  "catalog_answers B E up body la lo url d =
     (prop_of body ''latitude'' = Some la \<and> la \<noteq> JUndefined
      \<and> prop_of body ''longitude'' = Some lo \<and> lo \<noteq> JUndefined
      \<and> \<not> unset (imagga_api_key E) \<and> \<not> unset (imagga_api_secret E)
      \<and> asf_url B la lo = Some url \<and> catalog up url = Data d)"

text \<open>
  A request comes as far as the enrichment of an image: the catalog answers it, the
  selection gives the image URL \<open>u\<close> of a feature with properties \<open>p\<close>, and the URL can
  be written as text.
\<close>

definition reaches_image ::
  "builtins \<Rightarrow> env \<Rightarrow> upstream \<Rightarrow> json \<Rightarrow> json \<Rightarrow> json \<Rightarrow> string \<Rightarrow> json \<Rightarrow> json \<Rightarrow> bool"
  where
  "reaches_image B E up body la lo url p u =
     (prop_of body ''latitude'' = Some la \<and> la \<noteq> JUndefined
      \<and> prop_of body ''longitude'' = Some lo \<and> lo \<noteq> JUndefined
      \<and> \<not> unset (imagga_api_key E) \<and> \<not> unset (imagga_api_secret E)
      \<and> asf_url B la lo = Some url
      \<and> (case catalog up url of
            Failed \<Rightarrow> False
          | Data d \<Rightarrow>
              (case select_image B d of
                 Selected f p' u' \<Rightarrow> p' = p \<and> u' = u
               | _ \<Rightarrow> False))
      \<and> to_string B u \<noteq> None)"

text \<open>
  A tag of the vision service is an object with a numeric \<^verbatim>\<open>confidence\<close> and a \<^verbatim>\<open>tag\<close>
  object that holds the labels.
\<close>

definition well_formed_tag :: "json \<Rightarrow> bool" where
  "well_formed_tag t =
     (\<not> nullish t \<and> (case get t ''confidence'' of JNum c \<Rightarrow> True | _ \<Rightarrow> False)
      \<and> \<not> nullish (get t ''tag''))"

definition confidence_above :: "rat \<Rightarrow> json \<Rightarrow> bool" where
  "confidence_above bound t =
     (case get t ''confidence'' of JNum c \<Rightarrow> c > bound | _ \<Rightarrow> False)"

definition label_of :: "json \<Rightarrow> json" where
  "label_of t = get (get t ''tag'') ''en''"

text \<open>
  The colours call gives nothing to work with: it rejects, its body was not JSON (axios
  then hands over the text), or a level of \<^verbatim>\<open>result.colors.image_colors\<close> is missing or
  otherwise falsy.
\<close>

definition colors_unavailable :: "outcome \<Rightarrow> bool" where
  "colors_unavailable r =
     (case r of
        Failed \<Rightarrow> True
      | Data d \<Rightarrow>
          (case d of JStr s \<Rightarrow> True | _ \<Rightarrow> False)
          \<or> \<not> truthy d \<or> \<not> truthy (get d ''result'')
          \<or> \<not> truthy (get (get d ''result'') ''colors'')
          \<or> \<not> truthy (get (get (get d ''result'') ''colors'') ''image_colors''))"

text \<open>The colours call resolves with the colour list \<open>cols\<close> in its place.\<close>

definition colors_listed :: "outcome \<Rightarrow> json list \<Rightarrow> bool" where
  "colors_listed r cols =
     (case r of
        Failed \<Rightarrow> False
      | Data d \<Rightarrow>
          truthy d \<and> truthy (get d ''result'') \<and> truthy (get (get d ''result'') ''colors'')
          \<and> get (get (get d ''result'') ''colors'') ''image_colors'' = JArr cols)"

text \<open>The tags call resolves with the well-formed tags \<open>ts\<close> in their place.\<close>

definition tags_listed :: "outcome \<Rightarrow> json list \<Rightarrow> bool" where
  "tags_listed r ts =
     (case r of
        Failed \<Rightarrow> False
      | Data d \<Rightarrow>
          truthy d \<and> truthy (get d ''result'') \<and> get (get d ''result'') ''tags'' = JArr ts
          \<and> list_all well_formed_tag ts)"

section \<open>Concrete requests\<close>

text \<open>
  An engine, a configuration and services for the worked examples. The engine sorts
  with the reference sort, encodes a URI component as \<^verbatim>\<open>encodeURIComponent\<close> does on
  UTF-8 text, and prints the empty object as \<^verbatim>\<open>{}\<close>. Its other answers are
  placeholders: every theorem holds for every engine, no example reaches the reading of
  a number or a date from a string, and none shows a text that a placeholder produced.
\<close>

definition unreserved :: string where
  "unreserved =
     ''ABCDEFGHIJKLMNOPQRSTUVWXYZabcdefghijklmnopqrstuvwxyz0123456789-_.!~*()''
     @ [CHR 0x27]"

definition hex_digit :: "nat \<Rightarrow> char" where
  "hex_digit n = ''0123456789ABCDEF'' ! n"

definition percent_encode :: "string \<Rightarrow> string" where
  "percent_encode s =
     concat (map (\<lambda>c. if c \<in> set unreserved then [c]
                       else [CHR ''%'', hex_digit (of_char c div 16), hex_digit (of_char c mod 16)])
               s)"

definition sample_engine :: builtins where
  "sample_engine =
     \<lparr> number_text = (\<lambda>n. []),
       string_number = (\<lambda>s. None),
       date_parse = (\<lambda>s. None),
       array_sort = stable_sort,
       to_fixed1 = (\<lambda>n. []),
       stringify2 = (\<lambda>v. ''{}''),
       uri_component = (\<lambda>s. Some (percent_encode s)),
       string_at0 = (\<lambda>s. JStr (take 1 s)) \<rparr>"

definition sample_env :: env where
  "sample_env =
     \<lparr> imagga_api_key = Some ''key'', imagga_api_secret = Some ''secret'',
       open_router_api = None \<rparr>"

definition sample_body :: json where
  "sample_body = JObj [(''latitude'', JStr ''64.8''), (''longitude'', JStr ''-147.7'')]"

definition sample_url :: string where
  "sample_url =
     ''https://api.daac.asf.alaska.edu/services/search/param?intersectsWith=POINT(-147.7+64.8)&dataset=SENTINEL-1&maxResults=250&output=geojson''"

text \<open>A parsed object whose \<^verbatim>\<open>toString\<close> is data: it cannot be written as text.\<close>

definition unprintable :: json where
  "unprintable = JObj [(''toString'', JNum 1)]"

text \<open>Services of which only the catalog answers, with the given data.\<close>

definition catalog_only :: "json \<Rightarrow> upstream" where
  "catalog_only d =
     \<lparr> catalog = (\<lambda>u. Data d), colors = (\<lambda>a u. Failed), tags = (\<lambda>a u. Failed),
       llm = (\<lambda>a p. Failed) \<rparr>"

text \<open>A catalog of four scenes; the newest one, D, has no preview.\<close>

definition scene :: "string \<Rightarrow> rat \<Rightarrow> json list \<Rightarrow> json" where
  "scene name t previews =
     JObj [(''properties'',
            JObj [(''sceneName'', JStr name), (''startTime'', JNum t),
                  (''browse'', JArr previews)])]"

definition sample_scenes :: "json list" where
  "sample_scenes =
     [scene ''A'' 1 [JStr ''a.png''], scene ''B'' 3 [JStr ''b.png'', JStr ''b2.png''],
      scene ''C'' 2 [JStr ''c.png''], scene ''D'' 9 []]"

definition sample_catalog :: json where
  "sample_catalog = JObj [(''features'', JArr sample_scenes)]"

definition scene_b :: json where
  "scene_b = scene ''B'' 3 [JStr ''b.png'', JStr ''b2.png'']"

text \<open>A colour list of the vision service, and the answer that carries it.\<close>

definition sample_colors :: "json list" where
  "sample_colors =
     [JObj [(''color_name'', JStr ''gray''), (''html_code'', JStr ''#808080''),
            (''percent'', JNum 60)],
      JObj [(''closest_palette_color'', JStr ''navy''), (''percent'', JNum 40)]]"

definition sample_colors_data :: json where
  "sample_colors_data =
     JObj [(''result'', JObj [(''colors'', JObj [(''image_colors'', JArr sample_colors)])])]"

text \<open>Eight tags, and services that answer the same whatever they are asked.\<close>

definition sample_tag :: "string \<Rightarrow> rat \<Rightarrow> json" where
  "sample_tag name c = JObj [(''confidence'', JNum c), (''tag'', JObj [(''en'', JStr name)])]"

definition sample_tags :: "json list" where
  "sample_tags =
     [sample_tag ''a'' 10, sample_tag ''b'' 16, sample_tag ''c'' 50, sample_tag ''d'' 15,
      sample_tag ''e'' 20, sample_tag ''f'' 99,
      sample_tag ''g'' 30, sample_tag ''h'' 40]"

definition sample_tags_data :: json where
  "sample_tags_data = JObj [(''result'', JObj [(''tags'', JArr sample_tags)])]"

definition sample_completion :: json where
  "sample_completion =
     JObj [(''choices'', JArr [JObj [(''message'', JObj [(''content'', JStr ''Water.'')])]])]"

definition sample_services :: "outcome \<Rightarrow> outcome \<Rightarrow> outcome \<Rightarrow> upstream" where
  "sample_services c t l =
     \<lparr> catalog = (\<lambda>u. Data sample_catalog), colors = (\<lambda>a u. c), tags = (\<lambda>a u. t),
       llm = (\<lambda>a p. l) \<rparr>"

section \<open>Properties\<close>

subsection \<open>Reading values\<close>

lemma get_falsy: "\<not> truthy p \<Longrightarrow> k \<noteq> ''length'' \<Longrightarrow> get p k = JUndefined"
  by (cases p) (auto simp: get_def)

lemma get_array_length: "get (JArr xs) ''length'' = JNum (of_nat (length xs))"
  by (simp add: get_def)

lemma prop_of_get: "\<not> nullish v \<Longrightarrow> prop_of v k = Some (get v k)"
  by (cases v) (auto simp: get_def nullish_def)

lemma truthy_not_nullish: "truthy v \<Longrightarrow> \<not> nullish v"
  by (auto simp: nullish_def)

lemma filter_throwing_total:
  "\<forall>x \<in> set xs. p x = Some (q x) \<Longrightarrow> filter_throwing p xs = Some (filter q xs)"
  by (induction xs) auto

lemma map_throwing_total:
  "\<forall>x \<in> set xs. f x = Some (g x) \<Longrightarrow> map_throwing f xs = Some (map g xs)"
  by (induction xs) auto

lemma index0_first_of: "\<not> nullish v \<Longrightarrow> index0 B v = Some (first_of B v)"
  by (cases "(B, v)" rule: index0.cases) (auto simp: first_of_def nullish_def)

lemma js_gt_number: "js_gt B (JNum n) c = Some (n > c)"
  by (simp add: js_gt_def)

lemma eligible_total:
  "\<not> nullish f \<Longrightarrow>
   eligible B f
   = (if truthy (get f ''properties'') \<and> truthy (browse_of f)
      then js_gt B (get (browse_of f) ''length'') 0 else Some False)"
  by (simp add: eligible_def prop_of_get browse_of_def truthy_not_nullish)

lemma eligible_well_formed:
  assumes "well_formed_feature f"
  shows "eligible B f = Some (has_preview f)"
proof (cases "truthy (get f ''properties'')")
  case True
  with assms show ?thesis
    by (auto simp: well_formed_feature_def eligible_total has_preview_def js_gt_number
          get_array_length split: json.splits list.splits)
next
  case False
  then have "browse_of f = JUndefined"
    by (simp add: browse_of_def get_falsy)
  with assms False show ?thesis
    by (simp add: well_formed_feature_def eligible_total has_preview_def)
qed

subsection \<open>Sorting\<close>

lemma mset_insert_sorted:
  "insert_sorted cmp x ys = Some zs \<Longrightarrow> mset zs = add_mset x (mset ys)"
  by (induction ys arbitrary: zs) (auto split: Option.bind_splits if_splits)

lemma mset_stable_sort: "stable_sort cmp xs = Some ys \<Longrightarrow> mset ys = mset xs"
  by (induction xs arbitrary: ys) (auto split: Option.bind_splits dest: mset_insert_sorted)

lemma insert_sorted_total:
  "\<forall>y \<in> set ys. cmp x y \<noteq> None \<Longrightarrow> insert_sorted cmp x ys \<noteq> None"
  by (induction ys) (auto split: Option.bind_splits)

lemma stable_sort_total:
  "\<forall>a \<in> set xs. \<forall>b \<in> set xs. cmp a b \<noteq> None \<Longrightarrow> stable_sort cmp xs \<noteq> None"
proof (induction xs)
  case Nil
  then show ?case by simp
next
  case (Cons x xs)
  then obtain ys where ys: "stable_sort cmp xs = Some ys"
    by auto
  then have "set ys = set xs"
    by (metis mset_stable_sort mset_eq_setD)
  then have "insert_sorted cmp x ys \<noteq> None"
    using Cons.prems by (intro insert_sorted_total) simp
  then show ?case
    by (simp add: ys)
qed

lemma sample_engine_conforms: "conforming_sort sample_engine"
  by (simp add: conforming_sort_def sample_engine_def mset_stable_sort stable_sort_total)


lemma sort_nil: "conforming_sort B \<Longrightarrow> array_sort B cmp [] = Some []"
proof -
  assume c: "conforming_sort B"
  then have "array_sort B cmp [] \<noteq> None"
    unfolding conforming_sort_def by (metis empty_iff list.set(1))
  then obtain ys where ys: "array_sort B cmp [] = Some ys"
    by auto
  with c have "mset ys = mset []"
    unfolding conforming_sort_def by blast
  with ys show ?thesis
    by simp
qed


lemma stable_sort_head:
  assumes "xs \<noteq> []" and "\<forall>a \<in> set xs. \<forall>b \<in> set xs. cmp a b = Some (Some (t b - t a))"
  shows "\<exists>y ys pre post. stable_sort cmp xs = Some (y # ys) \<and> xs = pre @ y # post
           \<and> (\<forall>g \<in> set pre. t g < t y) \<and> (\<forall>g \<in> set post. t g \<le> t y)"
  using assms
proof (induction xs)
  case Nil
  then show ?case by simp
next
  case (Cons x xs)
  show ?case
  proof (cases "xs = []")
    case True
    then have "stable_sort cmp (x # xs) = Some (x # []) \<and> x # xs = [] @ x # []"
      by simp
    then show ?thesis
      by (metis empty_iff list.set(1))
  next
    case False
    with Cons obtain y ys pre post where
      s: "stable_sort cmp xs = Some (y # ys)" and x: "xs = pre @ y # post"
      and pre: "\<forall>g \<in> set pre. t g < t y" and post: "\<forall>g \<in> set post. t g \<le> t y"
      by auto
    have c: "cmp x y = Some (Some (t y - t x))"
      using Cons.prems(2) x by simp
    show ?thesis
    proof (cases "t x < t y")
      case True
      have "\<forall>z \<in> set ys. cmp x z \<noteq> None"
      proof -
        have "set (y # ys) = set xs"
          using s by (metis mset_stable_sort mset_eq_setD)
        then show ?thesis
          using Cons.prems(2) by auto
      qed
      then obtain zs where "insert_sorted cmp x ys = Some zs"
        using insert_sorted_total[of ys cmp x] by auto
      then have "stable_sort cmp (x # xs) = Some (y # zs)"
        using True by (simp add: s c)
      moreover have "x # xs = (x # pre) @ y # post"
        using x by simp
      moreover have "\<forall>g \<in> set (x # pre). t g < t y"
        using True pre by simp
      ultimately show ?thesis
        using post by blast
    next
      case False
      then have "stable_sort cmp (x # xs) = Some (x # y # ys)"
        by (simp add: s c)
      moreover have "x # xs = [] @ x # xs"
        by simp
      moreover have "\<forall>g \<in> set xs. t g \<le> t x"
        using False pre post x by fastforce
      ultimately show ?thesis
        by (metis empty_iff list.set(1))
    qed
  qed
qed

lemma by_start_desc_reads:
  assumes "has_preview a" "has_preview b"
  shows "by_start_desc B a b
         = do {
             tb \<leftarrow> start_time B b;
             ta \<leftarrow> start_time B a;
             Some (case (tb, ta) of (Some x, Some y) \<Rightarrow> Some (x - y) | _ \<Rightarrow> None)
           }"
proof -
  have r: "prop_of f ''properties'' = Some (get f ''properties'')
      \<and> prop_of (get f ''properties'') ''startTime''
          = Some (get (get f ''properties'') ''startTime'')" if "has_preview f" for f
  proof -
    from that obtain x xs where "browse_of f = JArr (x # xs)"
      by (auto simp: has_preview_def split: json.splits list.splits)
    then have "\<not> nullish (get f ''properties'')" "\<not> nullish f"
      by (auto simp: browse_of_def nullish_def get_def)
    then show ?thesis
      by (simp add: prop_of_get)
  qed
  show ?thesis
    using r[OF assms(1)] r[OF assms(2)] by (simp add: by_start_desc_def start_time_def)
qed

lemma by_start_desc_dated:
  assumes "\<forall>f \<in> set xs. has_preview f \<and> start_time B f = Some (Some (t f))"
  shows "\<forall>a \<in> set xs. \<forall>b \<in> set xs. by_start_desc B a b = Some (Some (t b - t a))"
  using assms by (simp add: by_start_desc_reads)

lemma by_start_desc_consistent:
  assumes "\<forall>f \<in> set xs. has_preview f \<and> start_time B f = Some (Some (t f))"
  shows "consistent (by_start_desc B) xs"
  unfolding consistent_def
  by (rule exI[of _ "\<lambda>f. - t f"]) (use by_start_desc_dated[OF assms] in auto)


lemma filter_split:
  "filter P fs = pre @ f # post \<Longrightarrow>
   \<exists>us vs. fs = us @ f # vs \<and> filter P us = pre \<and> filter P vs = post"
proof (induction fs arbitrary: pre)
  case Nil
  then show ?case by simp
next
  case (Cons a fs)
  show ?case
  proof (cases "P a")
    case False
    with Cons.prems have "filter P fs = pre @ f # post" by simp
    from Cons.IH[OF this] obtain us vs where
      "fs = us @ f # vs" "filter P us = pre" "filter P vs = post" by blast
    then have "a # fs = (a # us) @ f # vs \<and> filter P (a # us) = pre \<and> filter P vs = post"
      using False by simp
    then show ?thesis by blast
  next
    case True
    show ?thesis
    proof (cases pre)
      case Nil
      with True Cons.prems have "a # fs = [] @ f # fs \<and> filter P [] = pre \<and> filter P fs = post"
        by simp
      then show ?thesis by blast
    next
      case (Cons p pre')
      with True Cons.prems have a: "a = p" and "filter P fs = pre' @ f # post" by simp_all
      from Cons.IH[OF this(2)] obtain us vs where
        "fs = us @ f # vs" "filter P us = pre'" "filter P vs = post" by blast
      then have "a # fs = (a # us) @ f # vs \<and> filter P (a # us) = pre \<and> filter P vs = post"
        using True a Cons by simp
      then show ?thesis by blast
    qed
  qed
qed

subsection \<open>Where a conversion throws\<close>

text \<open>
  A parsed object with a \<^verbatim>\<open>toString\<close> member cannot be written as text. As a
  coordinate it stops the handler at line 26, before validation, and nothing is sent;
  as the image URL it sends line 62 to the outer \<^verbatim>\<open>catch\<close>; as a colour name or a tag
  label it leaves no prompt (lines 113 and 123); as the length of a browse value it
  makes the filter callback throw (line 51).
\<close>

lemma unprintable_values:
  "to_string B unprintable = None"
  "handler B E up (JObj [(''latitude'', unprintable), (''longitude'', JNum 1)]) = (Uncaught, [])"
  "respond B E up la lo p unprintable = (Reply 500 failed_body, [])"
  "build_prompt B (JArr [JObj [(''color_name'', unprintable), (''percent'', JNum 1)]]) ts m = None"
  "build_prompt B (JArr []) [unprintable] m = None"
  "eligible B (JObj [(''properties'', JObj [(''browse'', JObj [(''length'', unprintable)])])])
   = None"
  by (simp_all add: unprintable_def handler_def respond_def build_prompt_def color_text_def
        color_line_def orelse_def tag_text_def eligible_def js_gt_def)

subsection \<open>The health check\<close>

text \<open>
  C9, as it holds: every call to GET /health answers 200 with the body
  \<^verbatim>\<open>{status: "ok", timestamp: now}\<close>, where \<open>now\<close> is the clock reading of that call.
  The timestamps of two calls are ordered as their clock readings are: never decreasing
  while the clock does not go back, and strictly increasing exactly when the reading
  has advanced.
\<close>

theorem health_follows_clock:
  "health now = Reply 200 (JObj [(''status'', JStr ''ok''), (''timestamp'', JNum (of_int now))])
   \<and> (t1 \<le> t2 \<longrightarrow> \<not> num_less (timestamp_of (health t2)) (timestamp_of (health t1)))
   \<and> (num_less (timestamp_of (health t1)) (timestamp_of (health t2)) \<longleftrightarrow> t1 < t2)"
  by (auto simp: health_def get_def)

theorem health_follows_clock_witness:
  "health 1700000000000
     = Reply 200 (JObj [(''status'', JStr ''ok''), (''timestamp'', JNum 1700000000000)])
   \<and> \<not> num_less (timestamp_of (health 1700000000001)) (timestamp_of (health 1700000000000))
   \<and> num_less (timestamp_of (health 1700000000000)) (timestamp_of (health 1700000000001))"
  using health_follows_clock [of 1700000000000 1700000000000 1700000000001]
  by (simp add: health_def get_def)

text \<open>
  C9 as the specification states it fails: two calls served within the same millisecond
  read the same clock value and answer the same timestamp.
\<close>

theorem health_same_millisecond:
  "\<not> num_less (timestamp_of (health 1700000000000)) (timestamp_of (health 1700000000000))"
  by (simp add: health_def get_def)

subsection \<open>Validation and configuration\<close>

lemma respond_status:
  "respond B E up la lo p u = (r, cs) \<Longrightarrow> r = Reply 500 failed_body \<or> (\<exists>b. r = Reply 200 b)"
  by (auto simp: respond_def Let_def split: prod.splits option.splits)

lemma asf_url_printable:
  "asf_url B la lo \<noteq> None \<longleftrightarrow> to_string B la \<noteq> None \<and> to_string B lo \<noteq> None"
  by (auto simp: asf_url_def split: Option.bind_splits)

lemma sample_asf_url: "asf_url B (JStr ''64.8'') (JStr ''-147.7'') = Some sample_url"
  by (simp add: asf_url_def sample_url_def)




text \<open>
  C8, as it holds: for a request that carries both coordinates, each of which can be
  written as text, an unset vision key or secret ends the request with status 500 and
  the error \<^verbatim>\<open>"Server configuration error: Imagga credentials missing."\<close> before any
  call is made. With both set the request goes on to the catalog call whatever the LLM
  key is, set or not, and the reply is not that configuration error.
\<close>

theorem vision_credentials_gate:
  assumes "prop_of body ''latitude'' = Some la" "la \<noteq> JUndefined"
    and "prop_of body ''longitude'' = Some lo" "lo \<noteq> JUndefined"
    and "asf_url B la lo = Some url"
  shows "(unset (imagga_api_key E) \<or> unset (imagga_api_secret E) \<longrightarrow>
            handler B E up body
            = (Reply 500 (JObj [(''error'',
                  JStr ''Server configuration error: Imagga credentials missing.'')]), []))
       \<and> (\<not> unset (imagga_api_key E) \<and> \<not> unset (imagga_api_secret E) \<longrightarrow>
            (\<forall>k. \<exists>r cs. handler B (E\<lparr>open_router_api := k\<rparr>) up body
                          = (r, CatalogCall url # cs)
               \<and> r \<noteq> Reply 500 (JObj [(''error'',
                  JStr ''Server configuration error: Imagga credentials missing.'')])))"
proof -
  from assms(5) obtain tla tlo where t: "to_string B la = Some tla" "to_string B lo = Some tlo"
    using asf_url_printable[of B la lo] by auto
  show ?thesis
    using assms
    by (auto simp: handler_def t Let_def failed_body_def error_body_def
          split: outcome.splits selection.splits prod.splits dest: respond_status)
qed

theorem vision_credentials_gate_witness:
  "handler sample_engine (sample_env\<lparr>imagga_api_secret := None\<rparr>) (catalog_only JNull)
       sample_body
     = (Reply 500 (JObj [(''error'',
          JStr ''Server configuration error: Imagga credentials missing.'')]), [])
   \<and> (\<exists>r cs. handler sample_engine (sample_env\<lparr>open_router_api := None\<rparr>)
                 (catalog_only JNull) sample_body
               = (r, CatalogCall sample_url # cs)
          \<and> r \<noteq> Reply 500 (JObj [(''error'',
                  JStr ''Server configuration error: Imagga credentials missing.'')]))"
proof -
  have b: "prop_of sample_body ''latitude'' = Some (JStr ''64.8'')" "JStr ''64.8'' \<noteq> JUndefined"
    "prop_of sample_body ''longitude'' = Some (JStr ''-147.7'')" "JStr ''-147.7'' \<noteq> JUndefined"
    by (simp_all add: sample_body_def)
  show ?thesis
    using vision_credentials_gate [OF b sample_asf_url, of "sample_env\<lparr>imagga_api_secret := None\<rparr>"
            sample_engine "catalog_only JNull"]
          vision_credentials_gate [OF b sample_asf_url, of sample_env sample_engine "catalog_only JNull"]
    by (simp add: sample_env_def unset_def)
qed

text \<open>
  C8 as the specification states it fails: validation comes first. A request without a
  latitude is answered 400 also when the vision secret is unset.
\<close>

theorem missing_coordinate_precedes_credentials:
  "unset (imagga_api_secret (sample_env\<lparr>imagga_api_secret := None\<rparr>))
   \<and> handler sample_engine (sample_env\<lparr>imagga_api_secret := None\<rparr>) (catalog_only JNull)
       (JObj [(''longitude'', JNum 1)])
     = (Reply 400 (JObj [(''error'', JStr ''Latitude and Longitude are required.'')]), [])"
  by (simp add: handler_def unset_def error_body_def sample_engine_def)

subsection \<open>Nothing found\<close>

lemma select_no_data:
  "prop_of d ''features'' = Some features \<Longrightarrow> \<not> truthy features \<or> features = JArr [] \<Longrightarrow>
   select_image B d = NoData"
  by (auto simp: select_image_def)

lemma select_no_previews:
  assumes "conforming_sort B" "prop_of d ''features'' = Some (JArr fs)" "fs \<noteq> []"
    and "\<forall>f \<in> set fs. well_formed_feature f \<and> \<not> has_preview f"
  shows "select_image B d = NoPreviews"
proof -
  have "filter_throwing (eligible B) fs = Some (filter has_preview fs)"
    using assms(4) by (intro filter_throwing_total) (simp add: eligible_well_formed)
  moreover have "filter has_preview fs = []"
    using assms(4) by simp
  ultimately show ?thesis
    using assms(1,2,3) by (simp add: select_image_def sort_nil)
qed

lemma handler_catalog_answers:
  assumes "catalog_answers B E up body la lo url d"
  shows "handler B E up body
         = (case select_image B d of
              Crashed \<Rightarrow> (Reply 500 failed_body, [CatalogCall url])
            | NoData \<Rightarrow>
                (Reply 404 (error_body ''No SAR data found for this location.''),
                 [CatalogCall url])
            | NoPreviews \<Rightarrow>
                (Reply 404
                   (error_body ''SAR data found, but no preview images are available.''),
                 [CatalogCall url])
            | Selected f p u \<Rightarrow>
                (fst (respond B E up la lo p u),
                 CatalogCall url # snd (respond B E up la lo p u)))"
proof -
  from assms have u: "asf_url B la lo = Some url"
    by (simp add: catalog_answers_def)
  then obtain tla tlo where t: "to_string B la = Some tla" "to_string B lo = Some tlo"
    using asf_url_printable[of B la lo] by auto
  show ?thesis
    using assms
    by (simp add: catalog_answers_def handler_def t u split: selection.splits prod.splits)
qed

lemma sample_catalog_answers:
  "catalog_answers sample_engine sample_env (catalog_only d) sample_body
     (JStr ''64.8'') (JStr ''-147.7'') sample_url d"
  "catalog_answers sample_engine sample_env (sample_services c t l) sample_body
     (JStr ''64.8'') (JStr ''-147.7'') sample_url sample_catalog"
  by (simp_all add: catalog_answers_def sample_body_def sample_env_def unset_def
        sample_asf_url catalog_only_def sample_services_def)

text \<open>
  C6: the catalog answers the request with data that has a \<^verbatim>\<open>features\<close> member to
  read. If the feature set is absent or empty the reply is 404 with
  \<^verbatim>\<open>"No SAR data found for this location."\<close>; otherwise, if no feature has a non-empty
  browse list, it is 404 with \<^verbatim>\<open>"SAR data found, but no preview images are available."\<close>.
  In both cases the catalog call is the only call made.
\<close>

theorem not_found_replies:
  assumes "catalog_answers B E up body la lo url d"
    and "prop_of d ''features'' = Some features"
  shows "(\<not> truthy features \<or> features = JArr [] \<longrightarrow>
            handler B E up body
            = (Reply 404 (JObj [(''error'', JStr ''No SAR data found for this location.'')]),
               [CatalogCall url]))
       \<and> (\<forall>fs. conforming_sort B \<and> features = JArr fs \<and> fs \<noteq> []
              \<and> (\<forall>f \<in> set fs. well_formed_feature f \<and> \<not> has_preview f) \<longrightarrow>
            handler B E up body
            = (Reply 404 (JObj [(''error'',
                  JStr ''SAR data found, but no preview images are available.'')]),
               [CatalogCall url]))"
proof -
  have "select_image B d = NoData" if "\<not> truthy features \<or> features = JArr []"
    using assms(2) that by (rule select_no_data)
  moreover have "select_image B d = NoPreviews"
    if "conforming_sort B \<and> features = JArr fs \<and> fs \<noteq> []
         \<and> (\<forall>f \<in> set fs. well_formed_feature f \<and> \<not> has_preview f)" for fs
    using that assms(2) select_no_previews[of B d fs] by simp
  ultimately show ?thesis
    using handler_catalog_answers[OF assms(1)] by (auto simp: error_body_def)
qed

theorem not_found_replies_witness:
  "handler sample_engine sample_env (catalog_only (JObj [(''features'', JArr [])])) sample_body
     = (Reply 404 (JObj [(''error'', JStr ''No SAR data found for this location.'')]),
        [CatalogCall sample_url])
   \<and> handler sample_engine sample_env
        (catalog_only (JObj [(''features'', JArr [scene ''D'' 9 [], JObj []])])) sample_body
     = (Reply 404 (JObj [(''error'',
           JStr ''SAR data found, but no preview images are available.'')]),
        [CatalogCall sample_url])"
proof -
  have w: "\<forall>f \<in> set [scene ''D'' 9 [], JObj []]. well_formed_feature f \<and> \<not> has_preview f"
    by (simp add: scene_def well_formed_feature_def has_preview_def browse_of_def get_def
          nullish_def)
  have 1: "prop_of (JObj [(''features'', JArr [])]) ''features'' = Some (JArr [])"
    by simp
  have 2: "prop_of (JObj [(''features'', JArr [scene ''D'' 9 [], JObj []])]) ''features''
             = Some (JArr [scene ''D'' 9 [], JObj []])"
    by simp
  show ?thesis
    using not_found_replies [OF sample_catalog_answers(1) 1] not_found_replies [OF sample_catalog_answers(1) 2]
      sample_engine_conforms w
    by simp
qed

subsection \<open>The eligibility filter\<close>

lemma has_preview_reads:
  assumes "has_preview f"
  shows "prop_of f ''properties'' = Some (get f ''properties'')"
    and "prop_of (get f ''properties'') ''browse'' = Some (browse_of f)"
    and "index0 B (browse_of f) = Some (first_preview f)"
proof -
  obtain b bs where b: "browse_of f = JArr (b # bs)"
    using assms by (auto simp: has_preview_def split: json.splits list.splits)
  then have n: "\<not> nullish (get f ''properties'')" "\<not> nullish f"
    by (auto simp: browse_of_def nullish_def get_def)
  then show "prop_of f ''properties'' = Some (get f ''properties'')"
    "prop_of (get f ''properties'') ''browse'' = Some (browse_of f)"
    by (simp_all add: prop_of_get browse_of_def)
  show "index0 B (browse_of f) = Some (first_preview f)"
    by (simp add: b first_preview_def)
qed


lemma sample_selection:
  "select_image sample_engine sample_catalog
   = Selected scene_b (get scene_b ''properties'') (JStr ''b.png'')"
  by (simp add: select_image_def sample_catalog_def sample_scenes_def scene_def scene_b_def
        eligible_def js_gt_def sample_engine_def by_start_desc_def time_clip_def get_def)

lemma sample_scenes_well_formed: "\<forall>f \<in> set sample_scenes. well_formed_feature f"
  by (simp add: sample_scenes_def scene_def well_formed_feature_def browse_of_def get_def
        nullish_def)

lemma sample_scenes_dated:
  "\<forall>f \<in> set sample_scenes. has_preview f \<longrightarrow>
     start_time sample_engine f = Some (Some (the (the (start_time sample_engine f))))"
  by (simp add: sample_scenes_def scene_def start_time_def time_clip_def get_def)




text \<open>
  Such a crash: a second eligible scene whose start time is an object with a
  \<^verbatim>\<open>toString\<close> member. The comparator throws and the outer \<^verbatim>\<open>catch\<close> answers.
\<close>

lemma unprintable_start_time_crashes:
  "select_image sample_engine
     (JObj [(''features'',
             JArr [scene_b,
                   JObj [(''properties'',
                          JObj [(''startTime'', unprintable),
                                (''browse'', JArr [JStr ''x.png''])])]])])
   = Crashed"
  by (simp add: select_image_def scene_b_def scene_def eligible_def js_gt_def sample_engine_def
        by_start_desc_def time_clip_def unprintable_def)

subsection \<open>The latest preview\<close>

lemma select_latest:
  assumes "conforming_sort B"
    and "prop_of d ''features'' = Some (JArr fs)"
    and "\<forall>f \<in> set fs. well_formed_feature f"
    and "\<forall>f \<in> set fs. has_preview f \<longrightarrow> start_time B f = Some (Some (t f))"
    and "\<exists>f \<in> set fs. has_preview f"
  shows "\<exists>f pre post. select_image B d = Selected f (get f ''properties'') (first_preview f)
           \<and> has_preview f \<and> fs = pre @ f # post
           \<and> (\<forall>g \<in> set pre. has_preview g \<longrightarrow> t g < t f)
           \<and> (\<forall>g \<in> set post. has_preview g \<longrightarrow> t g \<le> t f)"
proof -
  let ?passed = "filter has_preview fs"
  have passed: "filter_throwing (eligible B) fs = Some ?passed"
    using assms(3) by (intro filter_throwing_total) (simp add: eligible_well_formed)
  have ne: "?passed \<noteq> []"
    using assms(5) by (simp add: filter_empty_conv)
  have times: "\<forall>f \<in> set ?passed. has_preview f \<and> start_time B f = Some (Some (t f))"
    using assms(4) by simp
  note cmp = by_start_desc_dated[OF times]
  have "array_sort B (by_start_desc B) ?passed = stable_sort (by_start_desc B) ?passed"
    using assms(1) by_start_desc_consistent[OF times] by (simp add: conforming_sort_def)
  with stable_sort_head[OF ne cmp] obtain f rest pre post where
    sorted: "array_sort B (by_start_desc B) ?passed = Some (f # rest)"
    and split: "?passed = pre @ f # post"
    and pre: "\<forall>g \<in> set pre. t g < t f" and post: "\<forall>g \<in> set post. t g \<le> t f"
    by auto
  from split have "f \<in> set ?passed"
    by (metis in_set_conv_decomp)
  then have f: "f \<in> set fs" "has_preview f"
    by simp_all
  moreover have "fs \<noteq> []"
    using f(1) by auto
  ultimately have sel: "select_image B d = Selected f (get f ''properties'') (first_preview f)"
    using assms(2) passed sorted has_preview_reads[OF f(2)]
    by (simp add: select_image_def)
  from filter_split[OF split] obtain us vs where
    "fs = us @ f # vs" "filter has_preview us = pre" "filter has_preview vs = post"
    by blast
  then have "fs = us @ f # vs \<and> (\<forall>g \<in> set us. has_preview g \<longrightarrow> t g < t f)
      \<and> (\<forall>g \<in> set vs. has_preview g \<longrightarrow> t g \<le> t f)"
    using pre post by auto
  with sel f(2) show ?thesis
    by blast
qed

lemma select_order_independent:
  assumes "conforming_sort B"
    and "prop_of d ''features'' = Some (JArr fs)"
    and "\<forall>f \<in> set fs. well_formed_feature f"
    and "\<forall>f \<in> set fs. has_preview f \<longrightarrow> start_time B f = Some (Some (t f))"
    and "f \<in> set fs" "has_preview f" "\<forall>g \<in> set fs. has_preview g \<longrightarrow> t g \<le> t f"
    and "mset fs' = mset fs" "prop_of d' ''features'' = Some (JArr fs')"
  shows "\<exists>f'. select_image B d' = Selected f' (get f' ''properties'') (first_preview f')
            \<and> has_preview f' \<and> f' \<in> set fs \<and> t f' = t f
            \<and> ((\<forall>g \<in> set fs. has_preview g \<and> g \<noteq> f \<longrightarrow> t g < t f) \<longrightarrow> f' = f)"
proof -
  have s: "set fs' = set fs"
    using assms(8) by (rule mset_eq_setD)
  have "\<exists>f \<in> set fs'. has_preview f"
    using assms(5,6) s by blast
  from select_latest[OF assms(1) assms(9) _ _ this, of t] assms(3,4) s
  obtain f' pre post where
    sel: "select_image B d' = Selected f' (get f' ''properties'') (first_preview f')"
    and f': "has_preview f'" "fs' = pre @ f' # post"
    and pre: "\<forall>g \<in> set pre. has_preview g \<longrightarrow> t g < t f'"
    and post: "\<forall>g \<in> set post. has_preview g \<longrightarrow> t g \<le> t f'"
    by auto
  have in': "f' \<in> set fs"
    using f'(2) s by auto
  have "f \<in> set fs'"
    using assms(5) s by simp
  then have "t f \<le> t f'"
    using f'(2) pre post assms(6) by fastforce
  moreover have "t f' \<le> t f"
    using assms(7) in' f'(1) by simp
  ultimately have eq: "t f' = t f"
    by simp
  then have "(\<forall>g \<in> set fs. has_preview g \<and> g \<noteq> f \<longrightarrow> t g < t f) \<longrightarrow> f' = f"
    using in' f'(1) by fastforce
  with sel f'(1) in' eq show ?thesis
    by blast
qed

lemma respond_uses_url:
  "\<exists>r cs. respond B E up la lo p u = (r, vision_calls B E u @ cs)
      \<and> (\<forall>c \<in> set cs. \<exists>a q. c = LlmCall a q)
      \<and> (\<forall>b. r = Reply 200 b \<longrightarrow> get b ''imageUrl'' = u)"
proof (cases "to_string B u")
  case None
  then show ?thesis
    by (simp add: respond_def vision_calls_def encode_uri_def)
next
  case (Some logged)
  show ?thesis
  proof (cases "encode_uri B u")
    case None
    then show ?thesis
      using Some
      by (cases "build_prompt B (JArr []) [] (metadata_for_ai p la lo)")
        (simp_all add: respond_def colors_stage_def tags_stage_def llm_stage_def
          vision_calls_def get_def Let_def)
  next
    case (Some e)
    then show ?thesis
      using \<open>to_string B u = Some logged\<close>
      by (cases "build_prompt B
                   (received_colors (colors up (Basic (imagga_api_key E) (imagga_api_secret E))
                      (''https://api.imagga.com/v2/colors?image_url='' @ e)))
                   (received_tags B (tags up (Basic (imagga_api_key E) (imagga_api_secret E))
                      (''https://api.imagga.com/v2/tags?image_url='' @ e)))
                   (metadata_for_ai p la lo)")
        (simp_all add: respond_def colors_stage_def tags_stage_def llm_stage_def
          vision_calls_def get_def Let_def)
  qed
qed


text \<open>
  C1: the catalog data has a \<^verbatim>\<open>features\<close> array of well-formed features, at least one
  of them with a non-empty browse list, and every such feature has a start time that is
  a valid date (\<open>t\<close> is its time value). Then the feature selected has a non-empty
  browse list and the latest start time among those that have one; the eligible features
  before it in catalog order are strictly older, so ties go to the earliest in catalog
  order. For any reordering of the array the selected start time is the same, and the
  selected feature is the same when the latest is unique. The image URL is the first
  element of the selected feature's browse list: a request that the catalog answers
  with this data calls the vision service for exactly that URL, calls nothing else but
  the LLM afterwards, and a 200 reply carries it as \<^verbatim>\<open>imageUrl\<close>.
\<close>

theorem latest_preview_selected:
  assumes "conforming_sort B"
    and "prop_of d ''features'' = Some (JArr fs)"
    and "\<forall>f \<in> set fs. well_formed_feature f"
    and "\<forall>f \<in> set fs. has_preview f \<longrightarrow> start_time B f = Some (Some (t f))"
    and "\<exists>f \<in> set fs. has_preview f"
  shows "\<exists>f pre post.
      select_image B d = Selected f (get f ''properties'') (first_preview f)
      \<and> has_preview f \<and> fs = pre @ f # post
      \<and> (\<forall>g \<in> set pre. has_preview g \<longrightarrow> t g < t f)
      \<and> (\<forall>g \<in> set post. has_preview g \<longrightarrow> t g \<le> t f)
      \<and> (\<forall>fs' d'. mset fs' = mset fs \<and> prop_of d' ''features'' = Some (JArr fs') \<longrightarrow>
            (\<exists>f'. select_image B d' = Selected f' (get f' ''properties'') (first_preview f')
               \<and> has_preview f' \<and> f' \<in> set fs \<and> t f' = t f
               \<and> ((\<forall>g \<in> set fs. has_preview g \<and> g \<noteq> f \<longrightarrow> t g < t f) \<longrightarrow> f' = f)))
      \<and> (\<forall>E up body la lo url.
            catalog_answers B E up body la lo url d \<longrightarrow>
            (\<exists>r cs. handler B E up body
                      = (r, CatalogCall url # vision_calls B E (first_preview f) @ cs)
               \<and> (\<forall>c \<in> set cs. \<exists>a q. c = LlmCall a q)
               \<and> (\<forall>b. r = Reply 200 b \<longrightarrow> get b ''imageUrl'' = first_preview f)))"
proof -
  from select_latest[OF assms] obtain f pre post where
    sel: "select_image B d = Selected f (get f ''properties'') (first_preview f)"
    and f: "has_preview f" "fs = pre @ f # post"
    and pre: "\<forall>g \<in> set pre. has_preview g \<longrightarrow> t g < t f"
    and post: "\<forall>g \<in> set post. has_preview g \<longrightarrow> t g \<le> t f"
    by blast
  have mem: "f \<in> set fs"
    using f(2) by simp
  have latest: "\<forall>g \<in> set fs. has_preview g \<longrightarrow> t g \<le> t f"
    using f(2) pre post by fastforce
  have reorder: "\<exists>f'. select_image B d' = Selected f' (get f' ''properties'') (first_preview f')
               \<and> has_preview f' \<and> f' \<in> set fs \<and> t f' = t f
               \<and> ((\<forall>g \<in> set fs. has_preview g \<and> g \<noteq> f \<longrightarrow> t g < t f) \<longrightarrow> f' = f)"
    if "mset fs' = mset fs \<and> prop_of d' ''features'' = Some (JArr fs')" for fs' d'
    using select_order_independent[OF assms(1-4) mem f(1) latest] that by blast
  have request: "\<exists>r cs. handler B E up body
                      = (r, CatalogCall url # vision_calls B E (first_preview f) @ cs)
               \<and> (\<forall>c \<in> set cs. \<exists>a q. c = LlmCall a q)
               \<and> (\<forall>b. r = Reply 200 b \<longrightarrow> get b ''imageUrl'' = first_preview f)"
    if h: "catalog_answers B E up body la lo url d" for E up body la lo url
  proof -
    from h have "handler B E up body
         = (fst (respond B E up la lo (get f ''properties'') (first_preview f)),
            CatalogCall url
              # snd (respond B E up la lo (get f ''properties'') (first_preview f)))"
      using handler_catalog_answers[of B E up body la lo url d] by (simp add: sel)
    moreover obtain r cs where
      "respond B E up la lo (get f ''properties'') (first_preview f)
         = (r, vision_calls B E (first_preview f) @ cs)"
      and "\<forall>c \<in> set cs. \<exists>a q. c = LlmCall a q"
      and "\<forall>b. r = Reply 200 b \<longrightarrow> get b ''imageUrl'' = first_preview f"
      using respond_uses_url[of B E up la lo "get f ''properties''" "first_preview f"]
      by blast
    ultimately show ?thesis
      by simp
  qed
  show ?thesis
  proof (rule exI[of _ f], rule exI[of _ pre], rule exI[of _ post], intro conjI)
    show "select_image B d = Selected f (get f ''properties'') (first_preview f)"
      by (rule sel)
    show "has_preview f" "fs = pre @ f # post"
      by (rule f)+
    show "\<forall>g \<in> set pre. has_preview g \<longrightarrow> t g < t f"
      by (rule pre)
    show "\<forall>g \<in> set post. has_preview g \<longrightarrow> t g \<le> t f"
      by (rule post)
    show "\<forall>fs' d'. mset fs' = mset fs \<and> prop_of d' ''features'' = Some (JArr fs') \<longrightarrow>
            (\<exists>f'. select_image B d' = Selected f' (get f' ''properties'') (first_preview f')
               \<and> has_preview f' \<and> f' \<in> set fs \<and> t f' = t f
               \<and> ((\<forall>g \<in> set fs. has_preview g \<and> g \<noteq> f \<longrightarrow> t g < t f) \<longrightarrow> f' = f))"
      by (intro allI impI) (rule reorder)
    show "\<forall>E up body la lo url.
            catalog_answers B E up body la lo url d \<longrightarrow>
            (\<exists>r cs. handler B E up body
                      = (r, CatalogCall url # vision_calls B E (first_preview f) @ cs)
               \<and> (\<forall>c \<in> set cs. \<exists>a q. c = LlmCall a q)
               \<and> (\<forall>b. r = Reply 200 b \<longrightarrow> get b ''imageUrl'' = first_preview f))"
      by (intro allI impI) (rule request)
  qed
qed

theorem latest_preview_selected_witness:
  "select_image sample_engine sample_catalog
     = Selected scene_b (get scene_b ''properties'') (JStr ''b.png'')
   \<and> (\<exists>f pre post.
        select_image sample_engine sample_catalog
          = Selected f (get f ''properties'') (first_preview f)
        \<and> has_preview f \<and> sample_scenes = pre @ f # post
        \<and> (\<exists>r cs. handler sample_engine sample_env (catalog_only sample_catalog) sample_body
                   = (r, CatalogCall sample_url
                         # vision_calls sample_engine sample_env (first_preview f) @ cs)))"
proof -
  have f: "prop_of sample_catalog ''features'' = Some (JArr sample_scenes)"
    by (simp add: sample_catalog_def)
  have e: "\<exists>f \<in> set sample_scenes. has_preview f"
    by (simp add: sample_scenes_def scene_def has_preview_def browse_of_def get_def)
  from latest_preview_selected [OF sample_engine_conforms f sample_scenes_well_formed sample_scenes_dated e]
  obtain g pre post where
    g: "select_image sample_engine sample_catalog
          = Selected g (get g ''properties'') (first_preview g)"
      "has_preview g" "sample_scenes = pre @ g # post"
    and h: "\<forall>E up body la lo url.
            catalog_answers sample_engine E up body la lo url sample_catalog \<longrightarrow>
            (\<exists>r cs. handler sample_engine E up body
                      = (r, CatalogCall url # vision_calls sample_engine E (first_preview g) @ cs)
               \<and> (\<forall>c \<in> set cs. \<exists>a q. c = LlmCall a q)
               \<and> (\<forall>b. r = Reply 200 b \<longrightarrow> get b ''imageUrl'' = first_preview g))"
    by blast
  from h sample_catalog_answers(1)[of sample_catalog]
  have "\<exists>r cs. handler sample_engine sample_env (catalog_only sample_catalog) sample_body
                   = (r, CatalogCall sample_url
                         # vision_calls sample_engine sample_env (first_preview g) @ cs)"
    by blast
  with g sample_selection show ?thesis
    by blast
qed

subsection \<open>The tags kept\<close>

lemma confident_well_formed:
  "well_formed_tag t \<Longrightarrow> confident B t = Some (confidence_above 15 t)"
  by (auto simp: well_formed_tag_def confident_def prop_of_get confidence_above_def
        js_gt_number split: json.splits)

lemma english_label_well_formed: "well_formed_tag t \<Longrightarrow> english_label t = Some (label_of t)"
  by (simp add: well_formed_tag_def english_label_def prop_of_get label_of_def)

lemma kept_tags_well_formed:
  assumes "truthy d" "truthy (get d ''result'')" "get (get d ''result'') ''tags'' = JArr ts"
    and "\<forall>t \<in> set ts. well_formed_tag t"
  shows "kept_tags B d = Some (map label_of (take 5 (filter (confidence_above 15) ts)))"
proof -
  have "filter_throwing (confident B) ts = Some (filter (confidence_above 15) ts)"
    using assms(4) by (intro filter_throwing_total) (simp add: confident_well_formed)
  moreover have "map_throwing english_label (take 5 (filter (confidence_above 15) ts))
      = Some (map label_of (take 5 (filter (confidence_above 15) ts)))"
    using assms(4)
    by (intro map_throwing_total) (auto dest!: in_set_takeD simp: english_label_well_formed)
  ultimately show ?thesis
    using assms(1-3) by (simp add: kept_tags_def andalso_def)
qed

lemma respond_fields:
  "respond B E up la lo p u = (Reply 200 b, cs) \<Longrightarrow>
   get b ''imageTags'' = JArr (fst (tags_stage B E up u))
   \<and> get b ''imageColors'' = fst (colors_stage B E up u)"
  by (auto simp: respond_def Let_def get_def split: prod.splits option.splits)

text \<open>
  C2: the tags call resolves with data whose \<^verbatim>\<open>result.tags\<close> is an array of well-formed
  tags. The retained list is then exactly the labels \<^verbatim>\<open>tag.en\<close> of the first five tags
  with confidence strictly above 15, in the order of the response and with no sorting; a
  tag with confidence exactly 15 is not among the survivors. A 200 reply carries this
  list as \<^verbatim>\<open>imageTags\<close>.
\<close>

theorem tags_filtered_capped_in_order:
  assumes "truthy d" "truthy (get d ''result'')" "get (get d ''result'') ''tags'' = JArr ts"
    and "\<forall>t \<in> set ts. well_formed_tag t"
  shows "received_tags B (Data d) = map label_of (take 5 (filter (confidence_above 15) ts))
       \<and> (\<forall>t \<in> set ts. get t ''confidence'' = JNum 15 \<longrightarrow>
             t \<notin> set (filter (confidence_above 15) ts))
       \<and> (\<forall>E up la lo p u e b cs.
             encode_uri B u = Some e
             \<and> tags up (Basic (imagga_api_key E) (imagga_api_secret E))
                  (''https://api.imagga.com/v2/tags?image_url='' @ e) = Data d
             \<and> respond B E up la lo p u = (Reply 200 b, cs) \<longrightarrow>
             get b ''imageTags''
             = JArr (map label_of (take 5 (filter (confidence_above 15) ts))))"
proof (intro conjI allI impI)
  show r: "received_tags B (Data d) = map label_of (take 5 (filter (confidence_above 15) ts))"
    by (simp add: received_tags_def kept_tags_well_formed[OF assms])
  show "\<forall>t \<in> set ts. get t ''confidence'' = JNum 15 \<longrightarrow>
             t \<notin> set (filter (confidence_above 15) ts)"
    by (simp add: confidence_above_def)
  fix E up la lo p u e b cs
  assume h: "encode_uri B u = Some e
             \<and> tags up (Basic (imagga_api_key E) (imagga_api_secret E))
                  (''https://api.imagga.com/v2/tags?image_url='' @ e) = Data d
             \<and> respond B E up la lo p u = (Reply 200 b, cs)"
  then have "fst (tags_stage B E up u) = received_tags B (Data d)"
    by (simp add: tags_stage_def Let_def)
  with h r respond_fields[of B E up la lo p u b cs]
  show "get b ''imageTags'' = JArr (map label_of (take 5 (filter (confidence_above 15) ts)))"
    by simp
qed

theorem tags_filtered_capped_in_order_witness:
  "received_tags sample_engine (Data (JObj [(''result'', JObj [(''tags'', JArr sample_tags)])]))
   = [JStr ''b'', JStr ''c'', JStr ''e'', JStr ''f'', JStr ''g'']"
proof -
  let ?d = "JObj [(''result'', JObj [(''tags'', JArr sample_tags)])]"
  have 1: "truthy ?d" "truthy (get ?d ''result'')" "get (get ?d ''result'') ''tags'' = JArr sample_tags"
    by (simp_all add: get_def)
  have 2: "\<forall>t \<in> set sample_tags. well_formed_tag t"
    by (simp add: sample_tags_def sample_tag_def well_formed_tag_def get_def nullish_def)
  have 3: "map label_of (take 5 (filter (confidence_above 15) sample_tags))
      = [JStr ''b'', JStr ''c'', JStr ''e'', JStr ''f'', JStr ''g'']"
    by (simp add: sample_tags_def sample_tag_def confidence_above_def label_of_def get_def)
  from tags_filtered_capped_in_order [OF 1 2, of sample_engine] 3 show ?thesis
    by simp
qed

subsection \<open>After the image is chosen\<close>

lemma handler_reaches_image:
  assumes "reaches_image B E up body la lo url p u"
  shows "handler B E up body
         = (fst (respond B E up la lo p u), CatalogCall url # snd (respond B E up la lo p u))"
proof -
  from assms obtain d f where d: "catalog up url = Data d" "select_image B d = Selected f p u"
    by (auto simp: reaches_image_def split: outcome.splits selection.splits)
  with assms have "catalog_answers B E up body la lo url d"
    by (simp add: reaches_image_def catalog_answers_def)
  from handler_catalog_answers[OF this] d(2) show ?thesis
    by simp
qed

lemma reaches_image_llm:
  "reaches_image B E (up\<lparr>llm := l\<rparr>) body la lo url p u = reaches_image B E up body la lo url p u"
  by (simp add: reaches_image_def)

lemma stage_calls:
  "snd (colors_stage B E up u) @ snd (tags_stage B E up u) = vision_calls B E u"
  by (simp add: colors_stage_def tags_stage_def vision_calls_def Let_def split: option.splits)

lemma stages_llm:
  "colors_stage B E (up\<lparr>llm := l\<rparr>) u = colors_stage B E up u"
  "tags_stage B E (up\<lparr>llm := l\<rparr>) u = tags_stage B E up u"
  by (simp_all add: colors_stage_def tags_stage_def Let_def split: option.splits)

lemma respond_cases:
  assumes "to_string B u \<noteq> None"
  shows "respond B E up la lo p u
         = (case build_prompt B (fst (colors_stage B E up u)) (fst (tags_stage B E up u))
                   (metadata_for_ai p la lo) of
              None \<Rightarrow> (Reply 500 failed_body, vision_calls B E u)
            | Some prompt \<Rightarrow>
                (Reply 200
                   (JObj [(''imageUrl'', u),
                          (''explanation'',
                           explanation_of B (llm up (Bearer (open_router_api E)) prompt)),
                          (''sceneName'', get p ''sceneName''),
                          (''imageTags'', JArr (fst (tags_stage B E up u))),
                          (''imageColors'', fst (colors_stage B E up u)),
                          (''metadata'', metadata_for_ai p la lo)]),
                 vision_calls B E u @ [LlmCall (Bearer (open_router_api E)) prompt]))"
proof -
  obtain logged where "to_string B u = Some logged"
    using assms by auto
  then show ?thesis
    using stage_calls[of B E up u]
    by (cases "colors_stage B E up u"; cases "tags_stage B E up u")
       (simp add: respond_def llm_stage_def Let_def split: option.splits)
qed

lemma no_llm_in_vision_calls: "LlmCall a q \<notin> set (vision_calls B E u)"
  by (simp add: vision_calls_def split: option.splits)

lemma prompts_sent_vision_calls: "prompts_sent (vision_calls B E u @ cs) = prompts_sent cs"
  by (simp add: vision_calls_def split: option.splits)

lemma received_colors_unavailable: "colors_unavailable r \<Longrightarrow> received_colors r = JArr []"
proof (cases r)
  case Failed
  then show ?thesis by (simp add: received_colors_def)
next
  case (Data d)
  assume "colors_unavailable r"
  then have "\<not> truthy (nested_colors d)"
    using Data
    by (auto simp: colors_unavailable_def nested_colors_def andalso_def get_def
          split: json.splits)
  then show ?thesis
    using Data by (simp add: received_colors_def orelse_def)
qed

lemma received_colors_listed: "colors_listed r cols \<Longrightarrow> received_colors r = JArr cols"
  by (cases r)
     (auto simp: colors_listed_def received_colors_def nested_colors_def andalso_def orelse_def)

lemma received_tags_listed:
  "tags_listed r ts \<Longrightarrow>
   received_tags B r = map label_of (take 5 (filter (confidence_above 15) ts))"
  by (cases r)
     (auto simp: tags_listed_def received_tags_def kept_tags_well_formed list_all_iff)

lemma color_text_empty: "color_text B (JArr []) = Some ''No color data available''"
  by (simp add: color_text_def)

lemma tag_text_empty: "tag_text B [] = Some ''None''"
  by (simp add: tag_text_def)

subsection \<open>Failures that are absorbed\<close>

lemma sample_reaches_image:
  "reaches_image sample_engine sample_env (sample_services c t l) sample_body
     (JStr ''64.8'') (JStr ''-147.7'') sample_url (get scene_b ''properties'') (JStr ''b.png'')"
  by (simp add: reaches_image_def sample_body_def sample_env_def unset_def sample_asf_url
        sample_services_def sample_selection)


lemma sample_encode_uri: "encode_uri sample_engine (JStr ''b.png'') = Some ''b.png''"
  by (simp add: encode_uri_def sample_engine_def percent_encode_def unreserved_def)


lemma sample_tags_stage:
  "fst (tags_stage sample_engine sample_env (sample_services c (Data sample_tags_data) l)
          (JStr ''b.png''))
   = [JStr ''b'', JStr ''c'', JStr ''e'', JStr ''f'', JStr ''g'']"
  by (simp add: tags_stage_def sample_encode_uri sample_services_def received_tags_def
        kept_tags_def sample_tags_data_def sample_tags_def sample_tag_def confident_def
        english_label_def js_gt_number andalso_def get_def)




subsection \<open>The interpretation\<close>

lemma explanation_of_choice:
  assumes "get d ''choices'' = JArr (c # rest)"
  shows "explanation_of B (Data d)
         = (if truthy (get (get c ''message'') ''content'') then get (get c ''message'') ''content''
            else if truthy (get c ''text'') then get c ''text''
            else JStr [])"
proof -
  have d: "truthy d"
  proof (rule ccontr)
    assume "\<not> truthy d"
    then have "get d ''choices'' = JUndefined"
      by (simp add: get_falsy)
    with assms show False
      by simp
  qed
  have f: "first_of B (JArr (c # rest)) = c"
    by (simp add: first_of_def)
  have n: "get (get c ''message'') ''content'' = JUndefined" if "nullish (get c ''message'')"
    using that by (auto simp: nullish_def get_def)
  show ?thesis
  proof (cases "truthy c")
    case True
    then show ?thesis
      using d n
      by (auto simp: explanation_of_def first_choice_text_def andalso_def orelse_def Let_def
            assms f)
  next
    case False
    then have "get c ''message'' = JUndefined" "get c ''text'' = JUndefined"
      by (simp_all add: get_falsy)
    moreover have "get JUndefined ''content'' = JUndefined"
      by (simp add: get_def)
    ultimately show ?thesis
      using d False
      by (simp add: explanation_of_def andalso_def orelse_def assms f)
  qed
qed

lemma explanation_of_no_choice:
  assumes "\<not> truthy (get d ''choices'') \<or> get d ''choices'' = JArr []"
  shows "explanation_of B (Data d) = JStr []"
  using assms
  by (auto simp: explanation_of_def andalso_def orelse_def first_of_def)


lemma handler_llm_call:
  assumes "reaches_image B E up body la lo url p u"
    and "build_prompt B (fst (colors_stage B E up u)) (fst (tags_stage B E up u))
           (metadata_for_ai p la lo) = Some q"
  shows "handler B E up body
         = (Reply 200
              (JObj [(''imageUrl'', u),
                     (''explanation'', explanation_of B (llm up (Bearer (open_router_api E)) q)),
                     (''sceneName'', get p ''sceneName''),
                     (''imageTags'', JArr (fst (tags_stage B E up u))),
                     (''imageColors'', fst (colors_stage B E up u)),
                     (''metadata'',
                      JObj [(''sceneName'', get p ''sceneName''),
                            (''platform'', get p ''platform''),
                            (''captureDate'', get p ''startTime''),
                            (''flightDirection'', get p ''flightDirection''),
                            (''polarization'', get p ''polarization''),
                            (''beamMode'', get p ''beamModeType''),
                            (''orbit'', get p ''orbit''),
                            (''coordinates'',
                             JObj [(''latitude'', la), (''longitude'', lo)])])]),
            CatalogCall url # vision_calls B E u @ [LlmCall (Bearer (open_router_api E)) q])"
proof -
  have "to_string B u \<noteq> None"
    using assms(1) by (simp add: reaches_image_def)
  then show ?thesis
    using handler_reaches_image[OF assms(1)] assms(2)
    by (simp add: respond_cases metadata_for_ai_def)
qed

lemma llm_call_prompt:
  assumes "reaches_image B E up body la lo url p u"
    and "LlmCall a q \<in> set (snd (handler B E up body))"
  shows "a = Bearer (open_router_api E)
       \<and> build_prompt B (fst (colors_stage B E up u)) (fst (tags_stage B E up u))
           (metadata_for_ai p la lo) = Some q"
proof -
  have "to_string B u \<noteq> None"
    using assms(1) by (simp add: reaches_image_def)
  then show ?thesis
    using handler_reaches_image[OF assms(1)] assms(2) no_llm_in_vision_calls[of a q B E u]
    by (cases "build_prompt B (fst (colors_stage B E up u)) (fst (tags_stage B E up u))
                 (metadata_for_ai p la lo)")
       (auto simp: respond_cases)
qed

text \<open>
  C4: a request has come as far as the enrichment of an image and makes the LLM call,
  with the prompt \<open>q\<close>. The reply then has status 200 and the six fields of line 171.
  If the LLM call fails, \<^verbatim>\<open>explanation\<close> is exactly
  \<^verbatim>\<open>"AI interpretation unavailable due to service error."\<close>. If it resolves with data
  whose \<^verbatim>\<open>choices\<close> list has a first element, \<^verbatim>\<open>explanation\<close> is the \<^verbatim>\<open>message.content\<close>
  of that element when it is present (truthy), else its \<^verbatim>\<open>text\<close> when that is present,
  else the empty string; without a first choice it is the empty string. Whatever the
  LLM call does, the calls made and the other five fields are the same: the image URL
  chosen, the scene name and the metadata read from the properties of the chosen feature
  and the coordinates of the request, the colour list that the colours call gave (empty
  when it gave nothing to work with), and the labels of the first five tags with
  confidence above 15 that the tags call gave (none when it failed).
\<close>

theorem llm_failure_placeholder:
  assumes "reaches_image B E up body la lo url p u"
    and "LlmCall a q \<in> set (snd (handler B E up body))"
  shows "\<exists>explanation imageTags imageColors.
      handler B E up body
        = (Reply 200
             (JObj [(''imageUrl'', u),
                    (''explanation'', explanation),
                    (''sceneName'', get p ''sceneName''),
                    (''imageTags'', JArr imageTags),
                    (''imageColors'', imageColors),
                    (''metadata'',
                     JObj [(''sceneName'', get p ''sceneName''),
                           (''platform'', get p ''platform''),
                           (''captureDate'', get p ''startTime''),
                           (''flightDirection'', get p ''flightDirection''),
                           (''polarization'', get p ''polarization''),
                           (''beamMode'', get p ''beamModeType''),
                           (''orbit'', get p ''orbit''),
                           (''coordinates'',
                            JObj [(''latitude'', la), (''longitude'', lo)])])]),
           CatalogCall url # vision_calls B E u @ [LlmCall a q])
      \<and> a = Bearer (open_router_api E)
      \<and> (llm up a q = Failed \<longrightarrow>
          explanation = JStr ''AI interpretation unavailable due to service error.'')
      \<and> (\<forall>d c rest. llm up a q = Data d \<and> get d ''choices'' = JArr (c # rest) \<longrightarrow>
          explanation
          = (if truthy (get (get c ''message'') ''content'')
             then get (get c ''message'') ''content''
             else if truthy (get c ''text'') then get c ''text''
             else JStr []))
      \<and> (\<forall>d. llm up a q = Data d
              \<and> (\<not> truthy (get d ''choices'') \<or> get d ''choices'' = JArr []) \<longrightarrow>
          explanation = JStr [])
      \<and> (\<forall>l. \<exists>x. handler B E (up\<lparr>llm := l\<rparr>) body
                 = (Reply 200
                      (JObj [(''imageUrl'', u),
                             (''explanation'', x),
                             (''sceneName'', get p ''sceneName''),
                             (''imageTags'', JArr imageTags),
                             (''imageColors'', imageColors),
                             (''metadata'',
                              JObj [(''sceneName'', get p ''sceneName''),
                                    (''platform'', get p ''platform''),
                                    (''captureDate'', get p ''startTime''),
                                    (''flightDirection'', get p ''flightDirection''),
                                    (''polarization'', get p ''polarization''),
                                    (''beamMode'', get p ''beamModeType''),
                                    (''orbit'', get p ''orbit''),
                                    (''coordinates'',
                                     JObj [(''latitude'', la), (''longitude'', lo)])])]),
                    CatalogCall url # vision_calls B E u @ [LlmCall a q]))
      \<and> (\<forall>e cols. encode_uri B u = Some e
            \<and> colors_listed
                 (colors up (Basic (imagga_api_key E) (imagga_api_secret E))
                    (''https://api.imagga.com/v2/colors?image_url='' @ e)) cols \<longrightarrow>
          imageColors = JArr cols)
      \<and> (\<forall>e. encode_uri B u = Some e
            \<and> colors_unavailable
                 (colors up (Basic (imagga_api_key E) (imagga_api_secret E))
                    (''https://api.imagga.com/v2/colors?image_url='' @ e)) \<longrightarrow>
          imageColors = JArr [])
      \<and> (\<forall>e ts. encode_uri B u = Some e
            \<and> tags_listed
                 (tags up (Basic (imagga_api_key E) (imagga_api_secret E))
                    (''https://api.imagga.com/v2/tags?image_url='' @ e)) ts \<longrightarrow>
          imageTags = map label_of (take 5 (filter (confidence_above 15) ts)))
      \<and> (\<forall>e. encode_uri B u = Some e
            \<and> tags up (Basic (imagga_api_key E) (imagga_api_secret E))
                 (''https://api.imagga.com/v2/tags?image_url='' @ e) = Failed \<longrightarrow>
          imageTags = [])"
proof -
  let ?x = "explanation_of B (llm up a q)"
  let ?t = "fst (tags_stage B E up u)"
  let ?c = "fst (colors_stage B E up u)"
  from llm_call_prompt[OF assms] have a: "a = Bearer (open_router_api E)"
    and b: "build_prompt B ?c ?t (metadata_for_ai p la lo) = Some q"
    by simp_all
  have h: "handler B E up body
        = (Reply 200
             (JObj [(''imageUrl'', u),
                    (''explanation'', ?x),
                    (''sceneName'', get p ''sceneName''),
                    (''imageTags'', JArr ?t),
                    (''imageColors'', ?c),
                    (''metadata'',
                     JObj [(''sceneName'', get p ''sceneName''),
                           (''platform'', get p ''platform''),
                           (''captureDate'', get p ''startTime''),
                           (''flightDirection'', get p ''flightDirection''),
                           (''polarization'', get p ''polarization''),
                           (''beamMode'', get p ''beamModeType''),
                           (''orbit'', get p ''orbit''),
                           (''coordinates'',
                            JObj [(''latitude'', la), (''longitude'', lo)])])]),
           CatalogCall url # vision_calls B E u @ [LlmCall a q])"
    using handler_llm_call[OF assms(1) b] a by simp
  have i: "(\<forall>l. \<exists>x. handler B E (up\<lparr>llm := l\<rparr>) body
                 = (Reply 200
                      (JObj [(''imageUrl'', u),
                             (''explanation'', x),
                             (''sceneName'', get p ''sceneName''),
                             (''imageTags'', JArr ?t),
                             (''imageColors'', ?c),
                             (''metadata'',
                              JObj [(''sceneName'', get p ''sceneName''),
                                    (''platform'', get p ''platform''),
                                    (''captureDate'', get p ''startTime''),
                                    (''flightDirection'', get p ''flightDirection''),
                                    (''polarization'', get p ''polarization''),
                                    (''beamMode'', get p ''beamModeType''),
                                    (''orbit'', get p ''orbit''),
                                    (''coordinates'',
                                     JObj [(''latitude'', la), (''longitude'', lo)])])]),
                    CatalogCall url # vision_calls B E u @ [LlmCall a q]))"
  proof
    fix l
    have "reaches_image B E (up\<lparr>llm := l\<rparr>) body la lo url p u"
      using assms(1) by (simp add: reaches_image_llm)
    moreover have "build_prompt B (fst (colors_stage B E (up\<lparr>llm := l\<rparr>) u))
        (fst (tags_stage B E (up\<lparr>llm := l\<rparr>) u)) (metadata_for_ai p la lo) = Some q"
      using b by (simp add: stages_llm)
    ultimately show "\<exists>x. handler B E (up\<lparr>llm := l\<rparr>) body
                 = (Reply 200
                      (JObj [(''imageUrl'', u),
                             (''explanation'', x),
                             (''sceneName'', get p ''sceneName''),
                             (''imageTags'', JArr ?t),
                             (''imageColors'', ?c),
                             (''metadata'',
                              JObj [(''sceneName'', get p ''sceneName''),
                                    (''platform'', get p ''platform''),
                                    (''captureDate'', get p ''startTime''),
                                    (''flightDirection'', get p ''flightDirection''),
                                    (''polarization'', get p ''polarization''),
                                    (''beamMode'', get p ''beamModeType''),
                                    (''orbit'', get p ''orbit''),
                                    (''coordinates'',
                                     JObj [(''latitude'', la), (''longitude'', lo)])])]),
                    CatalogCall url # vision_calls B E u @ [LlmCall a q])"
      using handler_llm_call[of B E "up\<lparr>llm := l\<rparr>" body la lo url p u q] a
      by (simp add: stages_llm)
  qed
  show ?thesis
  proof (rule exI[of _ ?x], rule exI[of _ ?t], rule exI[of _ ?c], intro conjI)
    show "handler B E up body
        = (Reply 200
             (JObj [(''imageUrl'', u),
                    (''explanation'', ?x),
                    (''sceneName'', get p ''sceneName''),
                    (''imageTags'', JArr ?t),
                    (''imageColors'', ?c),
                    (''metadata'',
                     JObj [(''sceneName'', get p ''sceneName''),
                           (''platform'', get p ''platform''),
                           (''captureDate'', get p ''startTime''),
                           (''flightDirection'', get p ''flightDirection''),
                           (''polarization'', get p ''polarization''),
                           (''beamMode'', get p ''beamModeType''),
                           (''orbit'', get p ''orbit''),
                           (''coordinates'',
                            JObj [(''latitude'', la), (''longitude'', lo)])])]),
           CatalogCall url # vision_calls B E u @ [LlmCall a q])"
      by (rule h)
    show "a = Bearer (open_router_api E)"
      by (rule a)
    show "(llm up a q = Failed \<longrightarrow>
          ?x = JStr ''AI interpretation unavailable due to service error.'')"
      by (simp add: explanation_of_def)
    show "(\<forall>d c rest. llm up a q = Data d \<and> get d ''choices'' = JArr (c # rest) \<longrightarrow>
          ?x
          = (if truthy (get (get c ''message'') ''content'')
             then get (get c ''message'') ''content''
             else if truthy (get c ''text'') then get c ''text''
             else JStr []))"
      by (auto simp: explanation_of_choice)
    show "(\<forall>d. llm up a q = Data d
              \<and> (\<not> truthy (get d ''choices'') \<or> get d ''choices'' = JArr []) \<longrightarrow>
          ?x = JStr [])"
      by (auto simp: explanation_of_no_choice)
    show "(\<forall>l. \<exists>x. handler B E (up\<lparr>llm := l\<rparr>) body
                 = (Reply 200
                      (JObj [(''imageUrl'', u),
                             (''explanation'', x),
                             (''sceneName'', get p ''sceneName''),
                             (''imageTags'', JArr ?t),
                             (''imageColors'', ?c),
                             (''metadata'',
                              JObj [(''sceneName'', get p ''sceneName''),
                                    (''platform'', get p ''platform''),
                                    (''captureDate'', get p ''startTime''),
                                    (''flightDirection'', get p ''flightDirection''),
                                    (''polarization'', get p ''polarization''),
                                    (''beamMode'', get p ''beamModeType''),
                                    (''orbit'', get p ''orbit''),
                                    (''coordinates'',
                                     JObj [(''latitude'', la), (''longitude'', lo)])])]),
                    CatalogCall url # vision_calls B E u @ [LlmCall a q]))"
      by (rule i)
    show "(\<forall>e cols. encode_uri B u = Some e
            \<and> colors_listed
                 (colors up (Basic (imagga_api_key E) (imagga_api_secret E))
                    (''https://api.imagga.com/v2/colors?image_url='' @ e)) cols \<longrightarrow>
          ?c = JArr cols)"
      by (auto simp: colors_stage_def received_colors_listed)
    show "(\<forall>e. encode_uri B u = Some e
            \<and> colors_unavailable
                 (colors up (Basic (imagga_api_key E) (imagga_api_secret E))
                    (''https://api.imagga.com/v2/colors?image_url='' @ e)) \<longrightarrow>
          ?c = JArr [])"
      by (auto simp: colors_stage_def received_colors_unavailable)
    show "(\<forall>e ts. encode_uri B u = Some e
            \<and> tags_listed
                 (tags up (Basic (imagga_api_key E) (imagga_api_secret E))
                    (''https://api.imagga.com/v2/tags?image_url='' @ e)) ts \<longrightarrow>
          ?t = map label_of (take 5 (filter (confidence_above 15) ts)))"
      by (auto simp: tags_stage_def received_tags_listed)
    show "(\<forall>e. encode_uri B u = Some e
            \<and> tags up (Basic (imagga_api_key E) (imagga_api_secret E))
                 (''https://api.imagga.com/v2/tags?image_url='' @ e) = Failed \<longrightarrow>
          ?t = [])"
      by (auto simp: tags_stage_def received_tags_def)
  qed
qed


lemma sample_colors_stage:
  "fst (colors_stage sample_engine sample_env (sample_services (Data sample_colors_data) t l)
          (JStr ''b.png''))
   = JArr sample_colors"
  by (simp add: colors_stage_def sample_encode_uri sample_services_def received_colors_def
        nested_colors_def sample_colors_data_def andalso_def orelse_def get_def)

lemma sample_prompt:
  "\<exists>q. build_prompt sample_engine (JArr sample_colors)
          [JStr ''b'', JStr ''c'', JStr ''e'', JStr ''f'', JStr ''g'']
          (metadata_for_ai (get scene_b ''properties'') (JStr ''64.8'') (JStr ''-147.7''))
        = Some q"
  by (simp add: build_prompt_def color_text_def color_line_def tag_text_def sample_colors_def
        orelse_def)

theorem llm_failure_placeholder_witness:
  "fst (handler sample_engine sample_env
          (sample_services (Data sample_colors_data) (Data sample_tags_data) Failed)
          sample_body)
   = Reply 200
     (JObj [(''imageUrl'', JStr ''b.png''),
            (''explanation'', JStr ''AI interpretation unavailable due to service error.''),
            (''sceneName'', JStr ''B''),
            (''imageTags'',
             JArr [JStr ''b'', JStr ''c'', JStr ''e'', JStr ''f'', JStr ''g'']),
            (''imageColors'', JArr sample_colors),
            (''metadata'',
             JObj [(''sceneName'', JStr ''B''), (''platform'', JUndefined),
                   (''captureDate'', JNum 3), (''flightDirection'', JUndefined),
                   (''polarization'', JUndefined), (''beamMode'', JUndefined),
                   (''orbit'', JUndefined),
                   (''coordinates'',
                    JObj [(''latitude'', JStr ''64.8''),
                          (''longitude'', JStr ''-147.7'')])])])
   \<and> fst (handler sample_engine sample_env
            (sample_services (Data sample_colors_data) (Data sample_tags_data)
               (Data sample_completion))
            sample_body)
     = Reply 200
       (JObj [(''imageUrl'', JStr ''b.png''),
              (''explanation'', JStr ''Water.''),
              (''sceneName'', JStr ''B''),
              (''imageTags'',
               JArr [JStr ''b'', JStr ''c'', JStr ''e'', JStr ''f'', JStr ''g'']),
              (''imageColors'', JArr sample_colors),
              (''metadata'',
               JObj [(''sceneName'', JStr ''B''), (''platform'', JUndefined),
                     (''captureDate'', JNum 3), (''flightDirection'', JUndefined),
                     (''polarization'', JUndefined), (''beamMode'', JUndefined),
                     (''orbit'', JUndefined),
                     (''coordinates'',
                      JObj [(''latitude'', JStr ''64.8''),
                            (''longitude'', JStr ''-147.7'')])])])"
proof -
  let ?p = "get scene_b ''properties''"
  let ?u = "JStr ''b.png''"
  have up: "sample_services c t l = (sample_services c t Failed)\<lparr>llm := \<lambda>a q. l\<rparr>" for c t l
    by (simp add: sample_services_def)
  have k: "imagga_api_key sample_env = Some ''key''" "imagga_api_secret sample_env = Some ''secret''"
    by (simp_all add: sample_env_def)
  have cols: "colors_listed
      (colors (sample_services (Data sample_colors_data) t l)
         (Basic (Some ''key'') (Some ''secret''))
         (''https://api.imagga.com/v2/colors?image_url='' @ ''b.png''))
      sample_colors" for t l
    by (simp add: colors_listed_def sample_services_def sample_colors_data_def get_def)
  have tags: "tags_listed
      (tags (sample_services c (Data sample_tags_data) l)
         (Basic (Some ''key'') (Some ''secret''))
         (''https://api.imagga.com/v2/tags?image_url='' @ ''b.png''))
      sample_tags" for c l
    by (simp add: tags_listed_def sample_services_def sample_tags_data_def sample_tags_def
          sample_tag_def well_formed_tag_def nullish_def get_def)
  have labels: "map label_of (take 5 (filter (confidence_above 15) sample_tags))
      = [JStr ''b'', JStr ''c'', JStr ''e'', JStr ''f'', JStr ''g'']"
    by (simp add: sample_tags_def sample_tag_def confidence_above_def label_of_def get_def)
  have choice: "get sample_completion ''choices''
                = JArr [JObj [(''message'', JObj [(''content'', JStr ''Water.'')])]]"
    "get (get (JObj [(''message'', JObj [(''content'', JStr ''Water.'')])]) ''message'')
       ''content'' = JStr ''Water.''"
    by (simp_all add: sample_completion_def get_def)
  from sample_prompt obtain q where q:
    "build_prompt sample_engine (JArr sample_colors)
       [JStr ''b'', JStr ''c'', JStr ''e'', JStr ''f'', JStr ''g'']
       (metadata_for_ai ?p (JStr ''64.8'') (JStr ''-147.7'')) = Some q"
    by blast
  have call: "LlmCall (Bearer None) q
      \<in> set (snd (handler sample_engine sample_env
                    (sample_services (Data sample_colors_data) (Data sample_tags_data) l)
                    sample_body))" for l
  proof -
    have "open_router_api sample_env = None"
      by (simp add: sample_env_def)
    then show ?thesis
      using handler_llm_call[OF sample_reaches_image, of "Data sample_colors_data"
              "Data sample_tags_data" l q] q
      by (simp add: sample_colors_stage sample_tags_stage)
  qed
  from llm_failure_placeholder [OF sample_reaches_image call, of Failed]
  obtain x t c where 1:
    "handler sample_engine sample_env
       (sample_services (Data sample_colors_data) (Data sample_tags_data) Failed) sample_body
     = (Reply 200
          (JObj [(''imageUrl'', ?u), (''explanation'', x),
                 (''sceneName'', get ?p ''sceneName''),
                 (''imageTags'', JArr t), (''imageColors'', c),
                 (''metadata'',
                  JObj [(''sceneName'', get ?p ''sceneName''),
                        (''platform'', get ?p ''platform''),
                        (''captureDate'', get ?p ''startTime''),
                        (''flightDirection'', get ?p ''flightDirection''),
                        (''polarization'', get ?p ''polarization''),
                        (''beamMode'', get ?p ''beamModeType''),
                        (''orbit'', get ?p ''orbit''),
                        (''coordinates'',
                         JObj [(''latitude'', JStr ''64.8''),
                               (''longitude'', JStr ''-147.7'')])])]),
        CatalogCall sample_url # vision_calls sample_engine sample_env ?u
          @ [LlmCall (Bearer None) q])"
    and 2: "llm (sample_services (Data sample_colors_data) (Data sample_tags_data) Failed)
              (Bearer None) q = Failed \<longrightarrow>
            x = JStr ''AI interpretation unavailable due to service error.''"
    and 3: "\<forall>e cols. encode_uri sample_engine ?u = Some e
            \<and> colors_listed
                 (colors (sample_services (Data sample_colors_data) (Data sample_tags_data) Failed)
                    (Basic (imagga_api_key sample_env) (imagga_api_secret sample_env))
                    (''https://api.imagga.com/v2/colors?image_url='' @ e)) cols \<longrightarrow>
          c = JArr cols"
    and 4: "\<forall>e ts. encode_uri sample_engine ?u = Some e
            \<and> tags_listed
                 (tags (sample_services (Data sample_colors_data) (Data sample_tags_data) Failed)
                    (Basic (imagga_api_key sample_env) (imagga_api_secret sample_env))
                    (''https://api.imagga.com/v2/tags?image_url='' @ e)) ts \<longrightarrow>
          t = map label_of (take 5 (filter (confidence_above 15) ts))"
    by (elim exE conjE)
  have x: "x = JStr ''AI interpretation unavailable due to service error.''"
    using 2 by (simp add: sample_services_def)
  have c: "c = JArr sample_colors"
    using 3 cols sample_encode_uri unfolding k by blast
  have t: "t = [JStr ''b'', JStr ''c'', JStr ''e'', JStr ''f'', JStr ''g'']"
    using 4 tags sample_encode_uri labels unfolding k by metis
  have m: "get ?p ''sceneName'' = JStr ''B''" "get ?p ''platform'' = JUndefined"
    "get ?p ''startTime'' = JNum 3" "get ?p ''flightDirection'' = JUndefined"
    "get ?p ''polarization'' = JUndefined" "get ?p ''beamModeType'' = JUndefined"
    "get ?p ''orbit'' = JUndefined"
    by (simp_all add: scene_b_def scene_def get_def)
  have first: "fst (handler sample_engine sample_env
          (sample_services (Data sample_colors_data) (Data sample_tags_data) Failed)
          sample_body)
   = Reply 200
     (JObj [(''imageUrl'', JStr ''b.png''),
            (''explanation'', JStr ''AI interpretation unavailable due to service error.''),
            (''sceneName'', JStr ''B''),
            (''imageTags'',
             JArr [JStr ''b'', JStr ''c'', JStr ''e'', JStr ''f'', JStr ''g'']),
            (''imageColors'', JArr sample_colors),
            (''metadata'',
             JObj [(''sceneName'', JStr ''B''), (''platform'', JUndefined),
                   (''captureDate'', JNum 3), (''flightDirection'', JUndefined),
                   (''polarization'', JUndefined), (''beamMode'', JUndefined),
                   (''orbit'', JUndefined),
                   (''coordinates'',
                    JObj [(''latitude'', JStr ''64.8''),
                          (''longitude'', JStr ''-147.7'')])])])"
    unfolding 1 x c t m by simp
  from llm_failure_placeholder [OF sample_reaches_image call, of "Data sample_completion"]
  obtain x' t' c' where 5:
    "handler sample_engine sample_env
       (sample_services (Data sample_colors_data) (Data sample_tags_data)
          (Data sample_completion)) sample_body
     = (Reply 200
          (JObj [(''imageUrl'', ?u), (''explanation'', x'),
                 (''sceneName'', get ?p ''sceneName''),
                 (''imageTags'', JArr t'), (''imageColors'', c'),
                 (''metadata'',
                  JObj [(''sceneName'', get ?p ''sceneName''),
                        (''platform'', get ?p ''platform''),
                        (''captureDate'', get ?p ''startTime''),
                        (''flightDirection'', get ?p ''flightDirection''),
                        (''polarization'', get ?p ''polarization''),
                        (''beamMode'', get ?p ''beamModeType''),
                        (''orbit'', get ?p ''orbit''),
                        (''coordinates'',
                         JObj [(''latitude'', JStr ''64.8''),
                               (''longitude'', JStr ''-147.7'')])])]),
        CatalogCall sample_url # vision_calls sample_engine sample_env ?u
          @ [LlmCall (Bearer None) q])"
    and 6: "\<forall>d c rest.
            llm (sample_services (Data sample_colors_data) (Data sample_tags_data)
                   (Data sample_completion)) (Bearer None) q = Data d
            \<and> get d ''choices'' = JArr (c # rest) \<longrightarrow>
            x' = (if truthy (get (get c ''message'') ''content'')
                  then get (get c ''message'') ''content''
                  else if truthy (get c ''text'') then get c ''text''
                  else JStr [])"
    and 7: "\<forall>e cols. encode_uri sample_engine ?u = Some e
            \<and> colors_listed
                 (colors (sample_services (Data sample_colors_data) (Data sample_tags_data)
                            (Data sample_completion))
                    (Basic (imagga_api_key sample_env) (imagga_api_secret sample_env))
                    (''https://api.imagga.com/v2/colors?image_url='' @ e)) cols \<longrightarrow>
          c' = JArr cols"
    and 8: "\<forall>e ts. encode_uri sample_engine ?u = Some e
            \<and> tags_listed
                 (tags (sample_services (Data sample_colors_data) (Data sample_tags_data)
                          (Data sample_completion))
                    (Basic (imagga_api_key sample_env) (imagga_api_secret sample_env))
                    (''https://api.imagga.com/v2/tags?image_url='' @ e)) ts \<longrightarrow>
          t' = map label_of (take 5 (filter (confidence_above 15) ts))"
    by (elim exE conjE)
  have "llm (sample_services (Data sample_colors_data) (Data sample_tags_data)
               (Data sample_completion)) (Bearer None) q = Data sample_completion"
    by (simp add: sample_services_def)
  with 6 choice(1) have "x' = (if truthy (get (get (JObj [(''message'', JObj [(''content'', JStr ''Water.'')])]) ''message'') ''content'')
                  then get (get (JObj [(''message'', JObj [(''content'', JStr ''Water.'')])]) ''message'') ''content''
                  else if truthy (get (JObj [(''message'', JObj [(''content'', JStr ''Water.'')])]) ''text'') then get (JObj [(''message'', JObj [(''content'', JStr ''Water.'')])]) ''text''
                  else JStr [])"
    by blast
  then have x': "x' = JStr ''Water.''"
    unfolding choice(2) by simp
  have c': "c' = JArr sample_colors"
    using 7 cols sample_encode_uri unfolding k by blast
  have t': "t' = [JStr ''b'', JStr ''c'', JStr ''e'', JStr ''f'', JStr ''g'']"
    using 8 tags sample_encode_uri labels unfolding k by metis
  have second: "fst (handler sample_engine sample_env
            (sample_services (Data sample_colors_data) (Data sample_tags_data)
               (Data sample_completion))
            sample_body)
     = Reply 200
       (JObj [(''imageUrl'', JStr ''b.png''),
              (''explanation'', JStr ''Water.''),
              (''sceneName'', JStr ''B''),
              (''imageTags'',
               JArr [JStr ''b'', JStr ''c'', JStr ''e'', JStr ''f'', JStr ''g'']),
              (''imageColors'', JArr sample_colors),
              (''metadata'',
               JObj [(''sceneName'', JStr ''B''), (''platform'', JUndefined),
                     (''captureDate'', JNum 3), (''flightDirection'', JUndefined),
                     (''polarization'', JUndefined), (''beamMode'', JUndefined),
                     (''orbit'', JUndefined),
                     (''coordinates'',
                      JObj [(''latitude'', JStr ''64.8''),
                            (''longitude'', JStr ''-147.7'')])])])"
    unfolding 5 x' c' t' m by simp
  from first second show ?thesis
    by (rule conjI)
qed

subsection \<open>The prompt\<close>

lemma leading_space_None_iff:
  "leading_space s = None \<longleftrightarrow> (\<forall>w \<in> set white_space. w = [] \<or> take (length w) s \<noteq> w)"
  by (auto simp: leading_space_def find_None_iff)

lemma trailing_space_None_iff:
  "trailing_space s = None \<longleftrightarrow>
   (\<forall>w \<in> set white_space. w = [] \<or> \<not> length w \<le> length s
        \<or> drop (length s - length w) s \<noteq> w)"
  by (auto simp: trailing_space_def find_None_iff)

lemma trailing_space_SomeD:
  "trailing_space s = Some w \<Longrightarrow>
   w \<in> set white_space \<and> w \<noteq> [] \<and> length w \<le> length s \<and> drop (length s - length w) s = w"
  by (auto simp: trailing_space_def find_Some_iff)

lemma trim_start_no_leading: "leading_space (trim_start s) = None"
proof (induction s rule: trim_start.induct)
  case (1 s)
  then show ?case
    by (cases "leading_space s") (simp_all add: trim_start.simps[of s])
qed

lemma trim_end_no_trailing: "trailing_space (trim_end s) = None"
proof (induction s rule: trim_end.induct)
  case (1 s)
  then show ?case
    by (cases "trailing_space s") (simp_all add: trim_end.simps[of s])
qed

lemma leading_space_take:
  assumes "leading_space s = None"
  shows "leading_space (take n s) = None"
  unfolding leading_space_None_iff
proof (intro ballI)
  fix w assume w: "w \<in> set white_space"
  show "w = [] \<or> take (length w) (take n s) \<noteq> w"
  proof (rule ccontr)
    assume "\<not> (w = [] \<or> take (length w) (take n s) \<noteq> w)"
    then have ne: "w \<noteq> []" and eq: "take (length w) (take n s) = w"
      by simp_all
    from eq have "length (take (length w) (take n s)) = length w"
      by simp
    then have "length w \<le> n"
      by simp
    then have "take (length w) s = w"
      using eq by (simp add: min_def)
    with assms w ne show False
      by (auto simp: leading_space_None_iff)
  qed
qed

lemma trim_end_no_leading: "leading_space s = None \<Longrightarrow> leading_space (trim_end s) = None"
proof (induction s rule: trim_end.induct)
  case (1 s)
  then show ?case
    by (cases "trailing_space s") (simp_all add: trim_end.simps[of s] leading_space_take)
qed

lemma js_trim_trimmed: "leading_space (js_trim s) = None \<and> trailing_space (js_trim s) = None"
  by (simp add: js_trim_def trim_end_no_trailing trim_end_no_leading trim_start_no_leading)


lemma concat_lines: "ls \<noteq> [] \<Longrightarrow> concat (map (\<lambda>l. c # l) ls) = c # join [c] ls"
  by (induction "[c]" ls rule: join.induct) simp_all

lemma join_snoc: "join sep (xs @ [x]) = (if xs = [] then x else join sep xs @ sep @ x)"
  by (induction sep xs rule: join.induct) simp_all

lemma join_Cons: "join sep (x # xs) = (if xs = [] then x else x @ sep @ join sep xs)"
  by (cases xs) simp_all

lemma template_lines_ends:
  "template_lines c t \<noteq> []"
  "butlast (template_lines c t) \<noteq> []"
  "last (template_lines c t) = ''Metadata:''"
  "tl (template_lines c t) \<noteq> []"
  "\<exists>rest. hd (template_lines c t) = CHR ''Y'' # rest"
  by (simp_all add: template_lines_def)

lemma template_split:
  "template c t m
   = CHR 0x0A # join [CHR 0x0A] (template_lines c t) @ CHR 0x0A # m @ [CHR 0x0A]"
  using template_lines_ends(1)[of c t]
  by (simp add: template_def concat_lines)

lemma body_first:
  "\<exists>rest. join [CHR 0x0A] (template_lines c t) = CHR ''Y'' # rest"
proof -
  obtain l ls where L: "template_lines c t = l # ls"
    using template_lines_ends(1)[of c t] by (cases "template_lines c t") auto
  with template_lines_ends(4,5)[of c t] obtain rest where "ls \<noteq> []" "l = CHR ''Y'' # rest"
    by auto
  then show ?thesis
    unfolding L by (simp add: join_Cons)
qed

lemma body_last:
  "join [CHR 0x0A] (template_lines c t) \<noteq> []
   \<and> last (join [CHR 0x0A] (template_lines c t)) = CHR '':''"
proof -
  have "template_lines c t = butlast (template_lines c t) @ [''Metadata:'']"
    using template_lines_ends(1,3)[of c t] by (metis append_butlast_last_id)
  then have "join [CHR 0x0A] (template_lines c t)
      = join [CHR 0x0A] (butlast (template_lines c t)) @ [CHR 0x0A] @ ''Metadata:''"
    using join_snoc[of "[CHR 0x0A]" "butlast (template_lines c t)" "''Metadata:''"]
      template_lines_ends(2)[of c t]
    by simp
  then show ?thesis
    by simp
qed


lemma leading_space_newline: "leading_space (CHR 0x0A # s) = Some [CHR 0x0A]"
  by (simp add: leading_space_def white_space_def)

lemma leading_space_Y: "leading_space (CHR ''Y'' # s) = None"
  by (simp add: leading_space_def white_space_def)

lemma colon_not_space: "\<forall>w \<in> set white_space. CHR '':'' \<notin> set w"
  by (simp add: white_space_def)

lemma trim_start_template:
  "trim_start (template c t m)
   = join [CHR 0x0A] (template_lines c t) @ CHR 0x0A # m @ [CHR 0x0A]"
proof -
  obtain rest where b: "join [CHR 0x0A] (template_lines c t) = CHR ''Y'' # rest"
    using body_first by blast
  let ?x = "join [CHR 0x0A] (template_lines c t) @ CHR 0x0A # m @ [CHR 0x0A]"
  have "trim_start (CHR 0x0A # ?x) = trim_start ?x"
    by (subst trim_start.simps) (simp add: leading_space_newline)
  also have "\<dots> = ?x"
    by (subst trim_start.simps) (simp add: b leading_space_Y)
  finally show ?thesis
    by (simp add: template_split)
qed

lemma trim_end_keeps:
  assumes "xs \<noteq> []" and "\<forall>w \<in> set white_space. last xs \<notin> set w"
  shows "\<exists>r. trim_end (xs @ ys) = xs @ r"
proof (induction "xs @ ys" arbitrary: ys rule: trim_end.induct)
  case 1
  show ?case
  proof (cases "trailing_space (xs @ ys)")
    case None
    then show ?thesis
      by (subst trim_end.simps) simp
  next
    case (Some w)
    from trailing_space_SomeD[OF Some]
    have w: "w \<in> set white_space" "w \<noteq> []" "length w \<le> length (xs @ ys)"
      and d: "drop (length (xs @ ys) - length w) (xs @ ys) = w"
      by simp_all
    have short: "length w \<le> length ys"
    proof (rule ccontr)
      assume "\<not> length w \<le> length ys"
      then have k: "length xs + length ys - length w < length xs"
        using w(3) by simp
      then have "w = drop (length xs + length ys - length w) xs @ ys"
        using d by simp
      moreover have "drop (length xs + length ys - length w) xs \<noteq> []"
        using k by simp
      ultimately have "last xs \<in> set w"
        by (metis Un_iff last_drop last_in_set k set_append)
      with assms(2) w(1) show False
        by blast
    qed
    then have t: "take (length (xs @ ys) - length w) (xs @ ys)
        = xs @ take (length ys - length w) ys"
      by simp
    from "1.hyps"[OF Some t] obtain r where
      "trim_end (xs @ take (length ys - length w) ys) = xs @ r"
      by blast
    moreover have "trim_end (xs @ ys) = trim_end (take (length (xs @ ys) - length w) (xs @ ys))"
      by (subst trim_end.simps) (simp only: Some option.case)
    ultimately show ?thesis
      by (simp only: t) blast
  qed
qed

lemma js_trim_template:
  "\<exists>r. js_trim (template c t m) = join [CHR 0x0A] (template_lines c t) @ r"
  unfolding js_trim_def trim_start_template
  using body_last colon_not_space by (intro trim_end_keeps) simp_all


lemma trailing_space_last:
  assumes "s \<noteq> []" and "\<forall>w \<in> set white_space. last s \<notin> set w"
  shows "trailing_space s = None"
proof (cases "trailing_space s")
  case None
  then show ?thesis .
next
  case (Some w)
  from trailing_space_SomeD[OF this]
  have w: "w \<in> set white_space" "w \<noteq> []" and d: "drop (length s - length w) s = w"
    by simp_all
  have "last w = last s"
    using d w(2) by (metis last_drop drop_eq_Nil not_le)
  then have "last s \<in> set w"
    using w(2) by (metis last_in_set)
  with assms(2) w(1) show ?thesis
    by blast
qed

lemma trailing_space_newline: "trailing_space (s @ [CHR 0x0A]) = Some [CHR 0x0A]"
  by (simp add: trailing_space_def white_space_def)

lemma trim_end_newline: "trim_end (s @ [CHR 0x0A]) = trim_end s"
proof -
  have "trim_end (s @ [CHR 0x0A])
      = trim_end (take (length (s @ [CHR 0x0A]) - length [CHR 0x0A]) (s @ [CHR 0x0A]))"
    by (subst trim_end.simps) (simp only: trailing_space_newline option.case)
  then show ?thesis
    by simp
qed

lemma trim_end_id:
  "s \<noteq> [] \<Longrightarrow> \<forall>w \<in> set white_space. last s \<notin> set w \<Longrightarrow> trim_end s = s"
  by (subst trim_end.simps) (simp add: trailing_space_last)

lemma js_trim_template_exact:
  assumes "m \<noteq> []" and "\<forall>w \<in> set white_space. last m \<notin> set w"
  shows "js_trim (template c t m) = join [CHR 0x0A] (template_lines c t) @ CHR 0x0A # m"
proof -
  let ?x = "join [CHR 0x0A] (template_lines c t) @ CHR 0x0A # m"
  have "trim_end (?x @ [CHR 0x0A]) = trim_end ?x"
    by (rule trim_end_newline)
  also have "\<dots> = ?x"
    using assms by (intro trim_end_id) simp_all
  finally show ?thesis
    by (simp add: js_trim_def trim_start_template)
qed

lemma handler_calls:
  assumes "reaches_image B E up body la lo url p u"
  shows "snd (handler B E up body)
         = CatalogCall url # vision_calls B E u
           @ (case build_prompt B (fst (colors_stage B E up u)) (fst (tags_stage B E up u))
                     (metadata_for_ai p la lo) of
                None \<Rightarrow> []
              | Some prompt \<Rightarrow> [LlmCall (Bearer (open_router_api E)) prompt])"
proof -
  have "to_string B u \<noteq> None"
    using assms by (simp add: reaches_image_def)
  then show ?thesis
    using handler_reaches_image[OF assms]
    by (simp add: respond_cases split: option.splits)
qed

lemma handler_prompts:
  assumes "reaches_image B E up body la lo url p u"
  shows "q \<in> set (prompts_sent (snd (handler B E up body)))
         \<longleftrightarrow> build_prompt B (fst (colors_stage B E up u)) (fst (tags_stage B E up u))
               (metadata_for_ai p la lo) = Some q"
  unfolding handler_calls[OF assms]
  by (auto simp: prompts_sent_vision_calls split: option.splits)

text \<open>
  C7: the prompt of a request that has come as far as the enrichment of an image is
  built from the colours, the tags and the metadata and from nothing else, and nothing
  is called while it is built: the calls of the request are the catalog call, the
  vision calls and then, when the prompt can be built, the LLM call that carries it. Two
  requests with the same colours, tags and metadata send the same prompt, whatever else
  differs between them (configuration, services, body, image URL). A prompt has no
  white space at its start or its end; it begins with the lines of the template, joined
  by line breaks, and is exactly these lines, a line break and the metadata text when
  the metadata text ends in a character that is not white space. For an empty colour
  list line 5 of the template is the placeholder \<^verbatim>\<open>No color data available\<close>, and for
  an empty tag list line 7 is \<^verbatim>\<open>Also detected visual tags: None.\<close>.
\<close>

theorem prompt_deterministic_and_trimmed:
  "(\<forall>E up body la lo url p u.
      reaches_image B E up body la lo url p u \<longrightarrow>
      snd (handler B E up body)
      = CatalogCall url # vision_calls B E u
        @ (case build_prompt B (fst (colors_stage B E up u)) (fst (tags_stage B E up u))
                  (metadata_for_ai p la lo) of
             None \<Rightarrow> []
           | Some prompt \<Rightarrow> [LlmCall (Bearer (open_router_api E)) prompt]))
   \<and> (\<forall>E up body la lo url p u E' up' body' la' lo' url' p' u' q q'.
        reaches_image B E up body la lo url p u
        \<and> reaches_image B E' up' body' la' lo' url' p' u'
        \<and> fst (colors_stage B E up u) = fst (colors_stage B E' up' u')
        \<and> fst (tags_stage B E up u) = fst (tags_stage B E' up' u')
        \<and> metadata_for_ai p la lo = metadata_for_ai p' la' lo'
        \<and> q \<in> set (prompts_sent (snd (handler B E up body)))
        \<and> q' \<in> set (prompts_sent (snd (handler B E' up' body'))) \<longrightarrow>
        q = q')
   \<and> (build_prompt B c ts m = Some prompt \<longrightarrow>
        leading_space prompt = None \<and> trailing_space prompt = None
        \<and> (\<exists>colorText tagText r.
              color_text B c = Some colorText \<and> tag_text B ts = Some tagText
              \<and> prompt = join [CHR 0x0A] (template_lines colorText tagText) @ r))
   \<and> (color_text B c = Some colorText \<and> tag_text B ts = Some tagText
        \<and> stringify2 B m \<noteq> []
        \<and> (\<forall>w \<in> set white_space. last (stringify2 B m) \<notin> set w) \<longrightarrow>
        build_prompt B c ts m
        = Some (join [CHR 0x0A] (template_lines colorText tagText)
                @ CHR 0x0A # stringify2 B m))
   \<and> color_text B (JArr []) = Some ''No color data available''
   \<and> tag_text B [] = Some ''None''
   \<and> template_lines ''No color data available'' ''None'' ! 4 = ''No color data available''
   \<and> template_lines ''No color data available'' ''None'' ! 6
       = ''Also detected visual tags: None.''
   \<and> (\<exists>r. build_prompt B (JArr []) [] m
            = Some (join [CHR 0x0A] (template_lines ''No color data available'' ''None'') @ r))"
proof (intro conjI impI allI)
  show "snd (handler B E up body)
      = CatalogCall url # vision_calls B E u
        @ (case build_prompt B (fst (colors_stage B E up u)) (fst (tags_stage B E up u))
                  (metadata_for_ai p la lo) of
             None \<Rightarrow> []
           | Some prompt \<Rightarrow> [LlmCall (Bearer (open_router_api E)) prompt])"
    if "reaches_image B E up body la lo url p u" for E up body la lo url p u
    using that by (rule handler_calls)
  show "q = q'"
    if "reaches_image B E up body la lo url p u
        \<and> reaches_image B E' up' body' la' lo' url' p' u'
        \<and> fst (colors_stage B E up u) = fst (colors_stage B E' up' u')
        \<and> fst (tags_stage B E up u) = fst (tags_stage B E' up' u')
        \<and> metadata_for_ai p la lo = metadata_for_ai p' la' lo'
        \<and> q \<in> set (prompts_sent (snd (handler B E up body)))
        \<and> q' \<in> set (prompts_sent (snd (handler B E' up' body')))"
    for E up body la lo url p u E' up' body' la' lo' url' p' u' q q'
  proof -
    from that have "build_prompt B (fst (colors_stage B E up u)) (fst (tags_stage B E up u))
               (metadata_for_ai p la lo) = Some q"
      using handler_prompts[of B E up body la lo url p u q] by simp
    moreover from that
    have "build_prompt B (fst (colors_stage B E' up' u')) (fst (tags_stage B E' up' u'))
               (metadata_for_ai p' la' lo') = Some q'"
      using handler_prompts[of B E' up' body' la' lo' url' p' u' q'] by simp
    ultimately show ?thesis
      using that by simp
  qed
  show "color_text B (JArr []) = Some ''No color data available''"
    by (rule color_text_empty)
  show "tag_text B [] = Some ''None''"
    by (rule tag_text_empty)
  show "template_lines ''No color data available'' ''None'' ! 4 = ''No color data available''"
    by (simp add: template_lines_def)
  show "template_lines ''No color data available'' ''None'' ! 6
       = ''Also detected visual tags: None.''"
    by (simp add: template_lines_def)
  show "\<exists>r. build_prompt B (JArr []) [] m
            = Some (join [CHR 0x0A] (template_lines ''No color data available'' ''None'') @ r)"
    using js_trim_template[of "''No color data available''" "''None''" "stringify2 B m"]
    by (simp add: build_prompt_def color_text_empty tag_text_empty)
  show "build_prompt B c ts m
        = Some (join [CHR 0x0A] (template_lines colorText tagText)
                @ CHR 0x0A # stringify2 B m)"
    if "color_text B c = Some colorText \<and> tag_text B ts = Some tagText
        \<and> stringify2 B m \<noteq> []
        \<and> (\<forall>w \<in> set white_space. last (stringify2 B m) \<notin> set w)"
    using that by (simp add: build_prompt_def js_trim_template_exact)
next
  assume b: "build_prompt B c ts m = Some prompt"
  then obtain colorText tagText where c: "color_text B c = Some colorText"
    and t: "tag_text B ts = Some tagText"
    and p: "prompt = js_trim (template colorText tagText (stringify2 B m))"
    by (auto simp: build_prompt_def split: Option.bind_splits)
  show "leading_space prompt = None" "trailing_space prompt = None"
    unfolding p by (simp_all add: js_trim_trimmed)
  show "\<exists>colorText tagText r.
              color_text B c = Some colorText \<and> tag_text B ts = Some tagText
              \<and> prompt = join [CHR 0x0A] (template_lines colorText tagText) @ r"
    using c t js_trim_template[of colorText tagText "stringify2 B m"]
    unfolding p by blast
qed


theorem prompt_deterministic_and_trimmed_witness:
  "build_prompt sample_engine (JArr []) [] (JObj [])
     = Some (join [CHR 0x0A] (template_lines ''No color data available'' ''None'') @ CHR 0x0A # ''{}'')
   \<and> leading_space (join [CHR 0x0A] (template_lines ''No color data available'' ''None'') @ CHR 0x0A # ''{}'') = None
   \<and> trailing_space (join [CHR 0x0A] (template_lines ''No color data available'' ''None'') @ CHR 0x0A # ''{}'') = None
   \<and> (\<exists>q. prompts_sent (snd (handler sample_engine sample_env
                                  (sample_services Failed Failed Failed) sample_body)) = [q]
          \<and> prompts_sent (snd (handler sample_engine sample_env
                                  (sample_services Failed Failed (Data sample_completion))
                                  sample_body)) = [q])"
proof -
  let ?m = "metadata_for_ai (get scene_b ''properties'') (JStr ''64.8'') (JStr ''-147.7'')"
  let ?x = "join [CHR 0x0A] (template_lines ''No color data available'' ''None'') @ CHR 0x0A # ''{}''"
  let ?u = "JStr ''b.png''"
  note t = prompt_deterministic_and_trimmed
    [where B = sample_engine and c = "JArr []" and ts = "[]" and m = "JObj []" and prompt = ?x
       and colorText = "''No color data available''" and tagText = "''None''"]
  have s: "stringify2 sample_engine (JObj []) = ''{}''"
    by (simp add: sample_engine_def)
  have "color_text sample_engine (JArr []) = Some ''No color data available''
        \<and> tag_text sample_engine [] = Some ''None''
        \<and> stringify2 sample_engine (JObj []) \<noteq> []
        \<and> (\<forall>w \<in> set white_space. last (stringify2 sample_engine (JObj [])) \<notin> set w)"
    unfolding s by (simp add: color_text_empty tag_text_empty white_space_def)
  with t[THEN conjunct2, THEN conjunct2, THEN conjunct2, THEN conjunct1]
  have b: "build_prompt sample_engine (JArr []) [] (JObj []) = Some ?x"
    unfolding s by (rule mp)
  with t[THEN conjunct2, THEN conjunct2, THEN conjunct1]
  have trimmed: "leading_space ?x = None" "trailing_space ?x = None"
    by simp_all
  have stages: "fst (colors_stage sample_engine sample_env (sample_services Failed Failed l) ?u)
                = JArr []"
    "fst (tags_stage sample_engine sample_env (sample_services Failed Failed l) ?u) = []" for l
    by (simp_all add: colors_stage_def tags_stage_def sample_encode_uri sample_services_def
          received_colors_def received_tags_def)
  obtain q where q: "build_prompt sample_engine (JArr []) [] ?m = Some q"
    by (simp add: build_prompt_def color_text_empty tag_text_empty)
  have sent: "prompts_sent (snd (handler sample_engine sample_env
                                   (sample_services Failed Failed l) sample_body)) = [q]" for l
    using t[THEN conjunct1, THEN spec, THEN spec, THEN spec, THEN spec, THEN spec, THEN spec,
            THEN spec, THEN spec, THEN mp, OF sample_reaches_image, of Failed Failed l]
    by (simp add: stages q prompts_sent_vision_calls)
  have "\<exists>q. prompts_sent (snd (handler sample_engine sample_env
                                  (sample_services Failed Failed Failed) sample_body)) = [q]
          \<and> prompts_sent (snd (handler sample_engine sample_env
                                  (sample_services Failed Failed (Data sample_completion))
                                  sample_body)) = [q]"
    using sent[of Failed] sent[of "Data sample_completion"] by blast
  with b trimmed show ?thesis
    by simp
qed

end
